theory Spec2Isabelle
  imports Complex_Main "HOL-Library.AList"
begin

section \<open>JavaScript strings\<close>

text \<open>
  A JavaScript string is a sequence of UTF-16 code units.  The unit table of
  \<^verbatim>\<open>duration.js\<close> holds the alias \<^verbatim>\<open>"\<mu>s"\<close> and the pattern's character classes
  (\<^verbatim>\<open>\s\<close>, \<^verbatim>\<open>[a-z\<mu>]\<close> under the \<^verbatim>\<open>i\<close> flag) reach beyond ASCII, so a code unit is
  a natural number and \<open>js\<close> embeds an ASCII literal.
\<close>

type_synonym jsstring = "nat list"

definition js :: "string \<Rightarrow> jsstring" where
  "js s = map of_char s"

text \<open>\<^verbatim>\<open>\d\<close>, \<^verbatim>\<open>\w\<close> and \<^verbatim>\<open>\s\<close> of a regular expression without the \<^verbatim>\<open>u\<close> flag.\<close>

definition isDigit :: "nat \<Rightarrow> bool" where
  "isDigit c = (48 \<le> c \<and> c \<le> 57)"

definition isWordChar :: "nat \<Rightarrow> bool" where
  "isWordChar c = (isDigit c \<or> (65 \<le> c \<and> c \<le> 90) \<or> (97 \<le> c \<and> c \<le> 122) \<or> c = 95)"

definition isSpace :: "nat \<Rightarrow> bool" where
  "isSpace c = (c \<in> set [9, 10, 11, 12, 13, 32, 160, 5760, 8232, 8233, 8239, 8287, 12288, 65279]
     \<or> (8192 \<le> c \<and> c \<le> 8202))"

text \<open>
  \<^verbatim>\<open>[a-z\<mu>]\<close> under the \<^verbatim>\<open>i\<close> flag: the ASCII letters, the Greek small mu (956) and
  the two code units with the same upper case, the capital mu (924) and the micro
  sign (181).
\<close>

definition isUnitLetter :: "nat \<Rightarrow> bool" where
  "isUnitLetter c = ((65 \<le> c \<and> c \<le> 90) \<or> (97 \<le> c \<and> c \<le> 122) \<or> c = 956 \<or> c = 924 \<or> c = 181)"

text \<open>\<^verbatim>\<open>Array.prototype.join\<close> on an array of strings.\<close>

fun Array_join :: "jsstring \<Rightarrow> jsstring list \<Rightarrow> jsstring" where
  "Array_join sep [] = []"
| "Array_join sep [x] = x"
| "Array_join sep (x # y # ys) = x @ sep @ Array_join sep (y # ys)"

section \<open>The unit table\<close>

text \<open>
  The sixteen canonical units, in the order of \<^verbatim>\<open>kTimeDurations\<close>.  The objects
  \<^verbatim>\<open>Time\<close> (unit to magnitude) and \<^verbatim>\<open>TimeTypes\<close> (unit to label key) come from
  \<^verbatim>\<open>constants.js\<close>, which is not among the sources: a unit is a constructor, and the
  magnitudes are a parameter \<open>Time\<close> of every function that reads them.
\<close>

datatype TimeType =
  Terayear | Gigayear | Megayear | Millennium | Century | Decade | Year | Month
  | Week | Day | Hour | Minute | Second | Millisecond | Microsecond | Nanosecond

definition allTimeTypes :: "TimeType list" where
  "allTimeTypes = [Terayear, Gigayear, Megayear, Millennium, Century, Decade, Year, Month,
     Week, Day, Hour, Minute, Second, Millisecond, Microsecond, Nanosecond]"

definition kTimeDurations :: "(TimeType \<Rightarrow> rat) \<Rightarrow> (TimeType \<times> rat) list" where
  "kTimeDurations Time = map (\<lambda>ty. (ty, Time ty)) allTimeTypes"

text \<open>
  What the functions below need of the missing table: every magnitude is positive
  (a division by zero leaves the arithmetic the model covers) and the magnitudes
  fall along \<^verbatim>\<open>kTimeDurations\<close>.
\<close>

definition Time_positive :: "(TimeType \<Rightarrow> rat) \<Rightarrow> bool" where
  "Time_positive Time = list_all (\<lambda>ty. 0 < Time ty) allTimeTypes"

definition Time_descending :: "(TimeType \<Rightarrow> rat) \<Rightarrow> bool" where
  "Time_descending Time = sorted_wrt (\<lambda>a b. Time b < Time a) allTimeTypes"

text \<open>
  Modelled from the spec: the magnitudes of \<^verbatim>\<open>constants.js\<close>, in milliseconds.  The
  spec fixes the day (24 x 3600 x 1000), the hour, the minute and the second; the
  month follows the comment of \<^verbatim>\<open>formatter.js\<close> (29.53059 days); the year and its
  multiples are sample values (365 days).  Only closed examples use this table.
\<close>

definition Time_ms :: "TimeType \<Rightarrow> rat" where
  "Time_ms ty = (case ty of
      Nanosecond \<Rightarrow> 1 / 1000000
    | Microsecond \<Rightarrow> 1 / 1000
    | Millisecond \<Rightarrow> 1
    | Second \<Rightarrow> 1000
    | Minute \<Rightarrow> 60000
    | Hour \<Rightarrow> 3600000
    | Day \<Rightarrow> 86400000
    | Week \<Rightarrow> 604800000
    | Month \<Rightarrow> 2551442976
    | Year \<Rightarrow> 31536000000
    | Decade \<Rightarrow> 315360000000
    | Century \<Rightarrow> 3153600000000
    | Millennium \<Rightarrow> 31536000000000
    | Megayear \<Rightarrow> 31536000000000000
    | Gigayear \<Rightarrow> 31536000000000000000
    | Terayear \<Rightarrow> 31536000000000000000000)"

text \<open>
  \<^verbatim>\<open>tokens\<close> of \<^verbatim>\<open>duration.js\<close>: alias to unit.  \<^verbatim>\<open>new Map(entries)\<close> keeps the last
  entry of a repeated key.
\<close>

definition tokens_entries :: "(jsstring \<times> TimeType) list" where
  "tokens_entries = [
    (js ''nanoseconds'', Nanosecond), (js ''nanosecond'', Nanosecond), (js ''nsecs'', Nanosecond),
    (js ''nsec'', Nanosecond), (js ''ns'', Nanosecond), (js ''n'', Nanosecond),
    (js ''microseconds'', Microsecond), (js ''microsecond'', Microsecond), (js ''musecs'', Microsecond),
    (js ''musec'', Microsecond), (js ''mus'', Microsecond), (js ''mu'', Microsecond),
    ([956, 115], Microsecond), (js ''us'', Microsecond), (js ''u'', Microsecond),
    (js ''milliseconds'', Millisecond), (js ''millisecond'', Millisecond), (js ''msecs'', Millisecond),
    (js ''msec'', Millisecond), (js ''ms'', Millisecond),
    (js ''seconds'', Second), (js ''second'', Second), (js ''secon'', Second), (js ''seco'', Second),
    (js ''secs'', Second), (js ''sec'', Second), (js ''se'', Second), (js ''s'', Second),
    (js ''minutes'', Minute), (js ''minute'', Minute), (js ''minu'', Minute), (js ''mins'', Minute),
    (js ''min'', Minute), (js ''mi'', Minute), (js ''mn'', Minute), (js ''m'', Minute),
    (js ''hour'', Hour), (js ''hours'', Hour), (js ''hrs'', Hour), (js ''hr'', Hour),
    (js ''hs'', Hour), (js ''h'', Hour),
    (js ''days'', Day), (js ''day'', Day), (js ''dys'', Day), (js ''da'', Day), (js ''dy'', Day),
    (js ''ds'', Day), (js ''d'', Day),
    (js ''weeks'', Week), (js ''week'', Week), (js ''wks'', Week), (js ''we'', Week),
    (js ''ws'', Week), (js ''wk'', Week), (js ''w'', Week),
    (js ''months'', Month), (js ''month'', Month), (js ''mos'', Month), (js ''mo'', Month),
    (js ''b'', Month),
    (js ''years'', Year), (js ''year'', Year), (js ''yrs'', Year), (js ''yea'', Year),
    (js ''ye'', Year), (js ''yr'', Year), (js ''ys'', Year), (js ''y'', Year),
    (js ''decades'', Decade), (js ''decade'', Decade), (js ''decad'', Decade), (js ''deca'', Decade),
    (js ''decs'', Decade), (js ''dec'', Decade), (js ''de'', Decade),
    (js ''centuries'', Century), (js ''century'', Century), (js ''cents'', Century),
    (js ''cent'', Century), (js ''cen'', Century), (js ''ce'', Century), (js ''c'', Century),
    (js ''millennia'', Millennium), (js ''milleniums'', Millennium), (js ''millenium'', Millennium),
    (js ''millennias'', Millennium), (js ''milly'', Millennium), (js ''mill'', Millennium),
    (js ''mil'', Millennium), (js ''ml'', Millennium),
    (js ''megayears'', Megayear), (js ''megayear'', Megayear), (js ''megayear'', Megayear),
    (js ''megayea'', Megayear), (js ''megayes'', Megayear), (js ''megayer'', Megayear),
    (js ''megay'', Megayear), (js ''mega'', Megayear), (js ''megayrs'', Megayear),
    (js ''megary'', Megayear), (js ''myr'', Megayear),
    (js ''gigayears'', Gigayear), (js ''gigayear'', Gigayear), (js ''gigayea'', Gigayear),
    (js ''gigayes'', Gigayear), (js ''gigayer'', Gigayear), (js ''gigay'', Gigayear),
    (js ''gyr'', Gigayear), (js ''gigary'', Gigayear), (js ''gy'', Gigayear),
    (js ''terayears'', Terayear), (js ''terayear'', Terayear), (js ''terayea'', Terayear),
    (js ''terayer'', Terayear), (js ''terayes'', Terayear), (js ''teray'', Terayear),
    (js ''tera'', Terayear), (js ''teryrs'', Terayear), (js ''teryr'', Terayear),
    (js ''tery'', Terayear), (js ''tyr'', Terayear), (js ''ty'', Terayear)]"

definition tokens :: "jsstring \<Rightarrow> TimeType option" where
  "tokens units = map_of (rev tokens_entries) units"

section \<open>The arbitrary-precision accumulator\<close>

text \<open>
  \<^verbatim>\<open>bignumber.js\<close> is a dependency, not code of the repository; the source never
  calls \<^verbatim>\<open>BigNumber.config\<close>, so the library runs with its defaults: quotients
  rounded to 20 decimal places, half up (\<^verbatim>\<open>DECIMAL_PLACES\<close>, \<^verbatim>\<open>ROUNDING_MODE\<close>), a
  truncating \<^verbatim>\<open>modulo\<close> (\<^verbatim>\<open>MODULO_MODE\<close>) and decimal exponents from -1e7 to 1e7
  (\<^verbatim>\<open>RANGE\<close>).  A \<^verbatim>\<open>BigNumber\<close> is not-a-number, an infinity (the flag says
  negative) or a finite decimal, modelled by its value.  Sums, products and
  differences are exact; every finite result goes through \<open>normalise\<close>, which
  overflows to an infinity when the decimal exponent is above the range and
  underflows to zero when it is below.  The library's zero carries a sign; the model
  has one zero.
\<close>

definition MAX_EXP :: nat where
  "MAX_EXP = 10000000"

datatype BigNumber = NaN | Infinity bool | Num rat

definition representable :: "rat \<Rightarrow> bool" where
  "representable x = (x = 0 \<or> (1 / 10 ^ MAX_EXP \<le> \<bar>x\<bar> \<and> \<bar>x\<bar> < 10 ^ (MAX_EXP + 1)))"

definition normalise :: "rat \<Rightarrow> BigNumber" where
  "normalise x =
    (if x = 0 then Num 0
     else if 10 ^ (MAX_EXP + 1) \<le> \<bar>x\<bar> then Infinity (x < 0)
     else if \<bar>x\<bar> < 1 / 10 ^ MAX_EXP then Num 0
     else Num x)"

fun BigNumber_plus :: "BigNumber \<Rightarrow> BigNumber \<Rightarrow> BigNumber" where
  "BigNumber_plus NaN y = NaN"
| "BigNumber_plus x NaN = NaN"
| "BigNumber_plus (Infinity a) (Infinity b) = (if a = b then Infinity a else NaN)"
| "BigNumber_plus (Infinity a) (Num y) = Infinity a"
| "BigNumber_plus (Num x) (Infinity b) = Infinity b"
| "BigNumber_plus (Num x) (Num y) = normalise (x + y)"

fun BigNumber_negated :: "BigNumber \<Rightarrow> BigNumber" where
  "BigNumber_negated NaN = NaN"
| "BigNumber_negated (Infinity a) = Infinity (\<not> a)"
| "BigNumber_negated (Num x) = Num (- x)"

definition BigNumber_minus :: "BigNumber \<Rightarrow> BigNumber \<Rightarrow> BigNumber" where
  "BigNumber_minus x y = BigNumber_plus x (BigNumber_negated y)"

fun BigNumber_times :: "BigNumber \<Rightarrow> BigNumber \<Rightarrow> BigNumber" where
  "BigNumber_times NaN y = NaN"
| "BigNumber_times x NaN = NaN"
| "BigNumber_times (Infinity a) (Infinity b) = Infinity (a \<noteq> b)"
| "BigNumber_times (Infinity a) (Num y) = (if y = 0 then NaN else Infinity (a \<noteq> (y < 0)))"
| "BigNumber_times (Num x) (Infinity b) = (if x = 0 then NaN else Infinity ((x < 0) \<noteq> b))"
| "BigNumber_times (Num x) (Num y) = normalise (x * y)"

text \<open>
  \<^verbatim>\<open>dividedBy\<close>: the quotient rounded to 20 decimal places, a tie away from zero.
\<close>

definition round_half_up :: "rat \<Rightarrow> int" where
  "round_half_up q = (if q < 0 then - \<lfloor>- q + 1 / 2\<rfloor> else \<lfloor>q + 1 / 2\<rfloor>)"

definition toDecimalPlaces :: "rat \<Rightarrow> rat" where
  "toDecimalPlaces q = of_int (round_half_up (q * 10 ^ 20)) / 10 ^ 20"

fun BigNumber_dividedBy :: "BigNumber \<Rightarrow> BigNumber \<Rightarrow> BigNumber" where
  "BigNumber_dividedBy NaN y = NaN"
| "BigNumber_dividedBy x NaN = NaN"
| "BigNumber_dividedBy (Infinity a) (Infinity b) = NaN"
| "BigNumber_dividedBy (Infinity a) (Num y) = Infinity (a \<noteq> (y < 0))"
| "BigNumber_dividedBy (Num x) (Infinity b) = Num 0"
| "BigNumber_dividedBy (Num x) (Num y) =
    (if y = 0 then (if x = 0 then NaN else Infinity (x < 0))
     else if x = 0 then Num 0
     else normalise (toDecimalPlaces (x / y)))"

text \<open>
  \<^verbatim>\<open>modulo\<close> in the default mode: the quotient is truncated, so the remainder has the
  sign of the dividend, and is computed exactly.
\<close>

definition round_down :: "rat \<Rightarrow> int" where
  "round_down q = (if q < 0 then \<lceil>q\<rceil> else \<lfloor>q\<rfloor>)"

fun BigNumber_modulo :: "BigNumber \<Rightarrow> BigNumber \<Rightarrow> BigNumber" where
  "BigNumber_modulo NaN y = NaN"
| "BigNumber_modulo (Infinity a) y = NaN"
| "BigNumber_modulo (Num x) NaN = NaN"
| "BigNumber_modulo (Num x) (Infinity b) = Num x"
| "BigNumber_modulo (Num x) (Num y) =
    (if y = 0 then NaN
     else if x = 0 then Num x
     else BigNumber_minus (Num x)
            (BigNumber_times (normalise (of_int (round_down (x / y)))) (Num y)))"

text \<open>\<^verbatim>\<open>integerValue(BigNumber.ROUND_FLOOR)\<close>, \<^verbatim>\<open>abs\<close> and the three tests.\<close>

fun BigNumber_floor :: "BigNumber \<Rightarrow> BigNumber" where
  "BigNumber_floor (Num x) = Num (of_int \<lfloor>x\<rfloor>)"
| "BigNumber_floor x = x"

fun BigNumber_abs :: "BigNumber \<Rightarrow> BigNumber" where
  "BigNumber_abs NaN = NaN"
| "BigNumber_abs (Infinity a) = Infinity False"
| "BigNumber_abs (Num x) = Num \<bar>x\<bar>"

fun isNaN :: "BigNumber \<Rightarrow> bool" where
  "isNaN NaN = True"
| "isNaN x = False"

fun isNegative :: "BigNumber \<Rightarrow> bool" where
  "isNegative NaN = False"
| "isNegative (Infinity a) = a"
| "isNegative (Num x) = (x < 0)"

fun isLessThan :: "BigNumber \<Rightarrow> rat \<Rightarrow> bool" where
  "isLessThan NaN n = False"
| "isLessThan (Infinity a) n = a"
| "isLessThan (Num x) n = (x < n)"

text \<open>
  \<^verbatim>\<open>new BigNumber(text)\<close> on a decimal literal: an optional minus sign, digits with
  an optional point (\<^verbatim>\<open>12\<close>, \<^verbatim>\<open>12.\<close>, \<^verbatim>\<open>12.5\<close>, \<^verbatim>\<open>.5\<close>) and an optional exponent.
  \<open>parseDecimal\<close> is the exact value of the literal.  The constructor finds the
  decimal exponent of that value from the positions of the point and of the first
  digit that is not zero, and overflows or underflows on it as \<open>normalise\<close> does
  on the value.  The library's other literals (a radix prefix, \<^verbatim>\<open>Infinity\<close>) are not
  decimal literals; the pattern of the parser never produces them, and they are
  \<open>NaN\<close> here.
\<close>

definition digitsValue :: "jsstring \<Rightarrow> nat" where
  "digitsValue ds = foldl (\<lambda>a c. 10 * a + (c - 48)) 0 ds"

definition pow10 :: "int \<Rightarrow> rat" where
  "pow10 e = (if 0 \<le> e then 10 ^ nat e else 1 / 10 ^ nat (- e))"

definition parseExponent :: "jsstring \<Rightarrow> int option" where
  "parseExponent s = (case s of
      [] \<Rightarrow> Some 0
    | c # r \<Rightarrow>
        if c = 101 \<or> c = 69 then
          (case r of
             [] \<Rightarrow> None
           | g # r' \<Rightarrow>
               if g = 45 then (if r' \<noteq> [] \<and> list_all isDigit r' then Some (- int (digitsValue r')) else None)
               else if g = 43 then (if r' \<noteq> [] \<and> list_all isDigit r' then Some (int (digitsValue r')) else None)
               else if list_all isDigit r then Some (int (digitsValue r)) else None)
        else None)"

definition parseDecimal :: "jsstring \<Rightarrow> rat option" where
  "parseDecimal str =
    (let negative = (case str of c # _ \<Rightarrow> c = 45 | [] \<Rightarrow> False);
         s1 = (if negative then tl str else str);
         ip = takeWhile isDigit s1;
         r1 = dropWhile isDigit s1;
         hasPoint = (case r1 of c # _ \<Rightarrow> c = 46 | [] \<Rightarrow> False);
         fp = (if hasPoint then takeWhile isDigit (tl r1) else []);
         r2 = (if hasPoint then dropWhile isDigit (tl r1) else r1)
     in if ip \<noteq> [] \<or> (hasPoint \<and> fp \<noteq> []) then
          (case parseExponent r2 of
             None \<Rightarrow> None
           | Some e \<Rightarrow> Some ((if negative then - 1 else 1)
                            * (of_nat (digitsValue (ip @ fp)) / 10 ^ length fp) * pow10 e))
        else None)"

definition BigNumber_new :: "jsstring \<Rightarrow> BigNumber" where
  "BigNumber_new str = (case parseDecimal str of None \<Rightarrow> NaN | Some v \<Rightarrow> normalise v)"

section \<open>The pattern parser\<close>

text \<open>\<^verbatim>\<open>pattern.replace(/,/g, "")\<close>.\<close>

definition removeCommas :: "jsstring \<Rightarrow> jsstring" where
  "removeCommas s = filter (\<lambda>c. c \<noteq> 44) s"

text \<open>
  \<^verbatim>\<open>pattern.replace(/\ban?\b/gi, "1")\<close>.  The first argument says whether the code
  unit before the position is a word character.  The greedy \<^verbatim>\<open>n?\<close> is tried first;
  giving the \<^verbatim>\<open>n\<close> back never helps, since the \<^verbatim>\<open>n\<close> is a word character.
\<close>

definition isA :: "nat \<Rightarrow> bool" where
  "isA c = (c = 97 \<or> c = 65)"

definition isN :: "nat \<Rightarrow> bool" where
  "isN c = (c = 110 \<or> c = 78)"

fun replaceAAn :: "bool \<Rightarrow> jsstring \<Rightarrow> jsstring" where
  "replaceAAn prevWord [] = []"
| "replaceAAn prevWord [c] = (if \<not> prevWord \<and> isA c then [49] else [c])"
| "replaceAAn prevWord (c # n # rest) =
    (if \<not> prevWord \<and> isA c \<and> isN n \<and> (case rest of [] \<Rightarrow> True | d # _ \<Rightarrow> \<not> isWordChar d)
       then 49 # replaceAAn True rest
     else if \<not> prevWord \<and> isA c \<and> \<not> isWordChar n
       then 49 # replaceAAn True (n # rest)
     else c # replaceAAn (isWordChar c) (n # rest))"

text \<open>
  One attempt of \<^verbatim>\<open>/(-?\d*\.?\d+(?:e[-+]?\d+)?)\s*([a-z\<mu>]*)/gi\<close> at the head of a
  string.  \<^verbatim>\<open>\d*\.?\d+\<close>: all digits, then a point with at least one digit behind it,
  or else (after backtracking) the digits alone.
\<close>

definition matchMantissa :: "jsstring \<Rightarrow> (jsstring \<times> jsstring) option" where
  "matchMantissa s =
    (let ds = takeWhile isDigit s; r = dropWhile isDigit s in
     case r of
       [] \<Rightarrow> if ds \<noteq> [] then Some (ds, []) else None
     | c # r' \<Rightarrow>
         if c = 46 \<and> takeWhile isDigit r' \<noteq> []
           then Some (ds @ 46 # takeWhile isDigit r', dropWhile isDigit r')
         else if ds \<noteq> [] then Some (ds, r) else None)"

text \<open>\<^verbatim>\<open>(?:e[-+]?\d+)?\<close>: the exponent is taken when it is complete, else nothing.\<close>

definition matchExponent :: "jsstring \<Rightarrow> jsstring \<times> jsstring" where
  "matchExponent s = (case s of
      [] \<Rightarrow> ([], s)
    | c # r \<Rightarrow>
        if c = 101 \<or> c = 69 then
          (case r of
             [] \<Rightarrow> ([], s)
           | g # r' \<Rightarrow>
               if (g = 45 \<or> g = 43) \<and> takeWhile isDigit r' \<noteq> []
                 then (c # g # takeWhile isDigit r', dropWhile isDigit r')
               else if takeWhile isDigit r \<noteq> []
                 then (c # takeWhile isDigit r, dropWhile isDigit r)
               else ([], s))
        else ([], s))"

text \<open>The whole pattern: (group 1, group 2, the text after the match).\<close>

definition matchPattern :: "jsstring \<Rightarrow> (jsstring \<times> jsstring \<times> jsstring) option" where
  "matchPattern s =
    (let minus = (case s of c # _ \<Rightarrow> c = 45 | [] \<Rightarrow> False);
         s1 = (if minus then tl s else s)
     in case matchMantissa s1 of
          None \<Rightarrow> None
        | Some (m, s2) \<Rightarrow>
            (let (e, s3) = matchExponent s2;
                 s4 = dropWhile isSpace s3
             in Some ((if minus then [45] else []) @ m @ e,
                      takeWhile isUnitLetter s4, dropWhile isUnitLetter s4)))"

lemma matchMantissa_splits:
  assumes "matchMantissa s = Some (m, r)"
  shows "s = m @ r \<and> m \<noteq> []"
proof -
  define ds where "ds = takeWhile isDigit s"
  define r0 where "r0 = dropWhile isDigit s"
  have s: "s = ds @ r0"
    by (simp add: ds_def r0_def)
  show ?thesis
  proof (cases r0)
    case Nil
    with assms s show ?thesis
      unfolding matchMantissa_def ds_def [symmetric] r0_def [symmetric]
      by (simp split: if_splits)
  next
    case (Cons c r')
    have r': "r' = takeWhile isDigit r' @ dropWhile isDigit r'"
      by simp
    show ?thesis
    proof (cases "c = 46 \<and> takeWhile isDigit r' \<noteq> []")
      case True
      with assms Cons have "m = ds @ 46 # takeWhile isDigit r'" "r = dropWhile isDigit r'"
        unfolding matchMantissa_def ds_def [symmetric] r0_def [symmetric]
        by simp_all
      with s Cons True r' show ?thesis by simp
    next
      case False
      with assms Cons have "ds \<noteq> []" "m = ds" "r = r0"
        unfolding matchMantissa_def ds_def [symmetric] r0_def [symmetric]
        by (auto split: if_splits)
      with s show ?thesis by simp
    qed
  qed
qed

lemma matchExponent_splits:
  assumes "matchExponent s = (e, r)"
  shows "s = e @ r"
proof (cases s)
  case Nil
  with assms show ?thesis by (simp add: matchExponent_def)
next
  case outer: (Cons c t)
  show ?thesis
  proof (cases t)
    case Nil
    with assms outer show ?thesis by (auto simp: matchExponent_def split: if_splits)
  next
    case (Cons g t')
    show ?thesis
    proof (cases "c = 101 \<or> c = 69")
      case False
      with assms outer show ?thesis by (simp add: matchExponent_def)
    next
      case isE: True
      show ?thesis
      proof (cases "(g = 45 \<or> g = 43) \<and> takeWhile isDigit t' \<noteq> []")
        case True
        with assms outer Cons isE
        have "e = c # g # takeWhile isDigit t'" and "r = dropWhile isDigit t'"
          by (simp_all add: matchExponent_def)
        with outer Cons show ?thesis by simp
      next
        case noSign: False
        show ?thesis
        proof (cases "takeWhile isDigit t \<noteq> []")
          case True
          with assms outer Cons isE noSign
          have "e = c # takeWhile isDigit t" and "r = dropWhile isDigit t"
            by (simp_all add: matchExponent_def)
          with outer show ?thesis by simp
        next
          case False
          with assms outer Cons isE noSign have "e = []" and "r = s"
            by (simp_all add: matchExponent_def)
          then show ?thesis by simp
        qed
      qed
    qed
  qed
qed

lemma matchPattern_splits:
  assumes "matchPattern s = Some (i, units, rest)"
  shows "\<exists>ws. s = i @ ws @ units @ rest \<and> i \<noteq> []"
proof -
  define minus where "minus = (case s of c # _ \<Rightarrow> c = 45 | [] \<Rightarrow> False)"
  define s1 where "s1 = (if minus then tl s else s)"
  have s: "s = (if minus then [45] else []) @ s1"
    by (cases s) (auto simp: minus_def s1_def)
  have mp: "matchPattern s =
      (case matchMantissa s1 of
         None \<Rightarrow> None
       | Some (m, s2) \<Rightarrow>
           (case matchExponent s2 of
              (e, s3) \<Rightarrow> Some ((if minus then [45] else []) @ m @ e,
                 takeWhile isUnitLetter (dropWhile isSpace s3),
                 dropWhile isUnitLetter (dropWhile isSpace s3))))"
    by (simp add: matchPattern_def minus_def s1_def Let_def split: option.splits prod.splits)
  from assms obtain m s2 where mm: "matchMantissa s1 = Some (m, s2)"
    unfolding mp by (auto split: option.splits)
  obtain e s3 where me: "matchExponent s2 = (e, s3)"
    by (cases "matchExponent s2")
  from assms mm me have i: "i = (if minus then [45] else []) @ m @ e"
    and units: "units = takeWhile isUnitLetter (dropWhile isSpace s3)"
    and rest: "rest = dropWhile isUnitLetter (dropWhile isSpace s3)"
    unfolding mp by simp_all
  have "s3 = takeWhile isSpace s3 @ units @ rest"
    by (simp add: units rest)
  with s i matchMantissa_splits [OF mm] matchExponent_splits [OF me]
  have "s = i @ takeWhile isSpace s3 @ units @ rest \<and> i \<noteq> []"
    by (metis append.assoc append_is_Nil_conv)
  then show ?thesis by blast
qed

lemma matchPattern_shorter:
  "matchPattern s = Some (i, units, rest) \<Longrightarrow> length rest < length s"
proof -
  assume "matchPattern s = Some (i, units, rest)"
  then obtain ws where "s = i @ ws @ units @ rest" and "i \<noteq> []"
    using matchPattern_splits by blast
  then have "length s = length i + length ws + length units + length rest" and "0 < length i"
    by simp_all
  then show ?thesis by linarith
qed

text \<open>
  \<^verbatim>\<open>String.prototype.replace\<close> with the global pattern: the matches from left to
  right, each starting where the one before ended; a position without a match is
  skipped.  The callback receives the two groups of every match.
\<close>

function patternMatches :: "jsstring \<Rightarrow> (jsstring \<times> jsstring) list" where
  "patternMatches [] = []"
| "patternMatches (c # cs) =
    (case matchPattern (c # cs) of
       Some (i, units, rest) \<Rightarrow> (i, units) # patternMatches rest
     | None \<Rightarrow> patternMatches cs)"
  by pat_completeness auto
termination
proof (relation "measure length")
  show "wf (measure length)"
    by simp
next
  fix c cs :: "nat list" and c' :: nat
  show "\<And>c cs. (cs, c # cs) \<in> measure length"
    by simp
next
  fix c :: nat and cs :: jsstring and x2 x y xa ya
  assume "matchPattern (c # cs) = Some x2" and "(x, y) = x2" and "(xa, ya) = y"
  then have "matchPattern (c # cs) = Some (x, xa, ya)"
    by simp
  from matchPattern_shorter [OF this] show "(ya, c # cs) \<in> measure length"
    by simp
qed

text \<open>
  \<^verbatim>\<open>Duration.calculateOffset\<close>.  The state of the callback is \<open>(result, valid)\<close>.
  The callback also adds the quantity to a field of the object
  (\<^verbatim>\<open>this[mappings.get(token)] += n\<close>); the field is not read by the function and
  is left out.  The constructor calls the function on \<^verbatim>\<open>pattern.toLowerCase()\<close>, a
  method of the language and not of the repository: the statements below are about
  \<open>calculateOffset\<close> on the string it receives, whatever it is, and the closed
  examples are strings that lower-casing leaves as they are.
\<close>

definition callback :: "(TimeType \<Rightarrow> rat) \<Rightarrow> BigNumber \<times> bool \<Rightarrow> jsstring \<times> jsstring \<Rightarrow> BigNumber \<times> bool" where
  "callback Time st m =
    (case tokens (snd m) of
       None \<Rightarrow> st
     | Some token \<Rightarrow>
         (let n = BigNumber_new (fst m)
          in (BigNumber_plus (fst st) (BigNumber_times n (Num (Time token))), True)))"

definition tokenize :: "jsstring \<Rightarrow> (jsstring \<times> jsstring) list" where
  "tokenize pattern = patternMatches (replaceAAn False (removeCommas pattern))"

definition calculateOffset :: "(TimeType \<Rightarrow> rat) \<Rightarrow> jsstring \<Rightarrow> BigNumber" where
  "calculateOffset Time pattern =
    (let (result, valid) = foldl (callback Time) (Num 0, False) (tokenize pattern)
     in if valid then result else NaN)"

section \<open>The matched quantity is a decimal literal\<close>

lemma digits_then_other:
  assumes "list_all isDigit ds" and "e = [] \<or> \<not> isDigit (hd e)"
  shows "takeWhile isDigit (ds @ e) = ds" and "dropWhile isDigit (ds @ e) = e"
proof -
  from assms(2) have e: "takeWhile isDigit e = []" "dropWhile isDigit e = e"
    by (cases e; simp)+
  from assms(1) have all: "\<forall>x\<in>set ds. isDigit x"
    by (simp add: list_all_iff)
  show "takeWhile isDigit (ds @ e) = ds"
    using all e by (simp add: takeWhile_append2)
  show "dropWhile isDigit (ds @ e) = e"
    using all e by (simp add: dropWhile_append2)
qed

lemma takeWhile_all: "list_all P (takeWhile P xs)"
  by (induction xs) auto

lemma matchMantissa_shape:
  assumes "matchMantissa s = Some (m, r)"
  shows "(m \<noteq> [] \<and> list_all isDigit m)
    \<or> (\<exists>ds fs. m = ds @ 46 # fs \<and> list_all isDigit ds \<and> fs \<noteq> [] \<and> list_all isDigit fs)"
proof (cases "dropWhile isDigit s")
  case Nil
  with assms show ?thesis
    by (auto simp: matchMantissa_def Let_def takeWhile_all split: if_splits)
next
  case (Cons c r')
  show ?thesis
  proof (cases "c = 46 \<and> takeWhile isDigit r' \<noteq> []")
    case True
    with assms Cons have "m = takeWhile isDigit s @ 46 # takeWhile isDigit r'"
      by (simp add: matchMantissa_def Let_def)
    with True show ?thesis
      using takeWhile_all [of isDigit] by blast
  next
    case False
    with assms Cons have "m = takeWhile isDigit s \<and> m \<noteq> []"
      by (auto simp: matchMantissa_def Let_def split: if_splits)
    then show ?thesis
      by (auto simp: takeWhile_all)
  qed
qed

text \<open>An exponent text the constructor accepts, not starting with a digit or a point.\<close>

definition exponentText :: "jsstring \<Rightarrow> bool" where
  "exponentText e = (parseExponent e \<noteq> None \<and> (e = [] \<or> \<not> isDigit (hd e) \<and> hd e \<noteq> 46))"

lemma matchExponent_shape:
  assumes "matchExponent s = (e, r)"
  shows "exponentText e"
proof -
  have empty: "exponentText []"
    by (simp add: exponentText_def parseExponent_def)
  show ?thesis
  proof (cases s)
    case Nil
    with assms empty show ?thesis by (simp add: matchExponent_def)
  next
    case outer: (Cons c t)
    show ?thesis
    proof (cases t)
      case Nil
      with assms outer have "e = []"
        by (simp add: matchExponent_def split: if_splits)
      with empty show ?thesis by simp
    next
      case (Cons g t')
      show ?thesis
      proof (cases "c = 101 \<or> c = 69")
        case False
        with assms outer have "e = []" by (simp add: matchExponent_def)
        with empty show ?thesis by simp
      next
        case isE: True
        then have cnd: "\<not> isDigit c" "c \<noteq> 46"
          by (auto simp: isDigit_def)
        show ?thesis
        proof (cases "(g = 45 \<or> g = 43) \<and> takeWhile isDigit t' \<noteq> []")
          case True
          with assms outer Cons isE have e: "e = c # g # takeWhile isDigit t'"
            by (simp add: matchExponent_def)
          from True have "parseExponent (c # g # takeWhile isDigit t') \<noteq> None"
            using isE by (auto simp: parseExponent_def takeWhile_all)
          with e cnd show ?thesis by (simp add: exponentText_def)
        next
          case noSign: False
          show ?thesis
          proof (cases "takeWhile isDigit t \<noteq> []")
            case True
            with assms outer Cons isE noSign have e: "e = c # takeWhile isDigit t"
              by (simp add: matchExponent_def)
            from True Cons have g: "isDigit g"
              by (auto split: if_splits)
            then have "g \<noteq> 45" "g \<noteq> 43"
              by (auto simp: isDigit_def)
            moreover from g Cons have tw: "takeWhile isDigit t = g # takeWhile isDigit t'"
              by simp
            moreover have "list_all isDigit (takeWhile isDigit t)"
              by (rule takeWhile_all)
            ultimately have "parseExponent (c # takeWhile isDigit t) \<noteq> None"
              using isE by (auto simp: parseExponent_def)
            with e cnd show ?thesis by (simp add: exponentText_def)
          next
            case False
            with assms outer Cons isE noSign have "e = []"
              by (simp add: matchExponent_def)
            with empty show ?thesis by simp
          qed
        qed
      qed
    qed
  qed
qed

lemma parseDecimal_int:
  assumes "ds \<noteq> []" "list_all isDigit ds" "exponentText e"
  shows "parseDecimal (ds @ e) \<noteq> None" and "parseDecimal (45 # ds @ e) \<noteq> None"
proof -
  from assms(3) have e: "e = [] \<or> \<not> isDigit (hd e)" and p: "parseExponent e \<noteq> None"
    and np: "(case e of c # _ \<Rightarrow> c = 46 | [] \<Rightarrow> False) = False"
    by (auto simp: exponentText_def split: list.splits)
  from assms(1,2) have h: "hd (ds @ e) \<noteq> 45"
    by (cases ds) (auto simp: isDigit_def)
  then have neg: "(case ds @ e of c # _ \<Rightarrow> c = 45 | [] \<Rightarrow> False) = False"
    by (cases "ds @ e") auto
  note tw = digits_then_other [OF assms(2) e]
  from p obtain x where x: "parseExponent e = Some x" by blast
  show "parseDecimal (ds @ e) \<noteq> None"
    unfolding parseDecimal_def neg by (simp add: tw np x assms(1) Let_def)
  show "parseDecimal (45 # ds @ e) \<noteq> None"
    unfolding parseDecimal_def by (simp add: tw np x assms(1) Let_def)
qed

lemma parseDecimal_frac:
  assumes "list_all isDigit ds" "fs \<noteq> []" "list_all isDigit fs" "exponentText e"
  shows "parseDecimal (ds @ 46 # fs @ e) \<noteq> None" and "parseDecimal (45 # ds @ 46 # fs @ e) \<noteq> None"
proof -
  from assms(4) have e: "e = [] \<or> \<not> isDigit (hd e)" and p: "parseExponent e \<noteq> None"
    by (auto simp: exponentText_def)
  have n46: "\<not> isDigit 46"
    by (simp add: isDigit_def)
  then have nd: "46 # fs @ e = [] \<or> \<not> isDigit (hd (46 # fs @ e))"
    by simp
  from assms(1) have h: "hd (ds @ 46 # fs @ e) \<noteq> 45"
    by (cases ds) (auto simp: isDigit_def)
  then have neg: "(case ds @ 46 # fs @ e of c # _ \<Rightarrow> c = 45 | [] \<Rightarrow> False) = False"
    by (cases "ds @ 46 # fs @ e") auto
  note tw1 = digits_then_other [OF assms(1) nd]
  note tw2 = digits_then_other [OF assms(3) e]
  from p obtain x where x: "parseExponent e = Some x" by blast
  show "parseDecimal (ds @ 46 # fs @ e) \<noteq> None"
    unfolding parseDecimal_def neg by (simp add: tw1 tw2 x assms(2) n46 Let_def)
  show "parseDecimal (45 # ds @ 46 # fs @ e) \<noteq> None"
    unfolding parseDecimal_def by (simp add: tw1 tw2 x assms(2) n46 Let_def)
qed

lemma matchPattern_numeric:
  assumes "matchPattern s = Some (i, units, rest)"
  shows "parseDecimal i \<noteq> None"
proof -
  define minus where "minus = (case s of c # _ \<Rightarrow> c = 45 | [] \<Rightarrow> False)"
  define s1 where "s1 = (if minus then tl s else s)"
  have mp: "matchPattern s =
      (case matchMantissa s1 of
         None \<Rightarrow> None
       | Some (m, s2) \<Rightarrow>
           (case matchExponent s2 of
              (e, s3) \<Rightarrow> Some ((if minus then [45] else []) @ m @ e,
                 takeWhile isUnitLetter (dropWhile isSpace s3),
                 dropWhile isUnitLetter (dropWhile isSpace s3))))"
    by (simp add: matchPattern_def minus_def s1_def Let_def split: option.splits prod.splits)
  from assms obtain m s2 where mm: "matchMantissa s1 = Some (m, s2)"
    unfolding mp by (auto split: option.splits)
  obtain e s3 where me: "matchExponent s2 = (e, s3)"
    by (cases "matchExponent s2")
  from assms mm me have i: "i = (if minus then [45] else []) @ m @ e"
    unfolding mp by simp
  note ex = matchExponent_shape [OF me]
  from matchMantissa_shape [OF mm] show ?thesis
  proof
    assume "m \<noteq> [] \<and> list_all isDigit m"
    with parseDecimal_int [of m e] ex i show ?thesis
      by (cases minus) simp_all
  next
    assume "\<exists>ds fs. m = ds @ 46 # fs \<and> list_all isDigit ds \<and> fs \<noteq> [] \<and> list_all isDigit fs"
    then obtain ds fs where "m = ds @ 46 # fs" "list_all isDigit ds" "fs \<noteq> []" "list_all isDigit fs"
      by blast
    with parseDecimal_frac [of ds fs e] ex i show ?thesis
      by (cases minus) simp_all
  qed
qed

lemma patternMatches_numeric:
  "list_all (\<lambda>m. parseDecimal (fst m) \<noteq> None) (patternMatches s)"
proof (induction s rule: patternMatches.induct)
  case 1
  show ?case by simp
next
  case (2 c cs)
  show ?case
  proof (cases "matchPattern (c # cs)")
    case None
    with 2 show ?thesis by simp
  next
    case (Some t)
    obtain i units rest where t: "t = (i, units, rest)"
      by (cases t)
    with Some 2 matchPattern_numeric [of "c # cs" i units rest] show ?thesis
      by simp
  qed
qed

section \<open>What a parse computes\<close>

text \<open>
  The spec's reading of a parse: the quantity of a token is the exact value of its
  decimal literal; the tokens whose alias resolves, each with its quantity and unit;
  and the sum of quantity times magnitude over them.
\<close>

definition quantity :: "jsstring \<Rightarrow> rat" where
  "quantity i = (case parseDecimal i of Some v \<Rightarrow> v | None \<Rightarrow> 0)"

definition resolve :: "jsstring \<times> jsstring \<Rightarrow> (rat \<times> TimeType) option" where
  "resolve m = (case tokens (snd m) of
      None \<Rightarrow> None
    | Some ty \<Rightarrow> Some (quantity (fst m), ty))"

definition resolvedTokens :: "jsstring \<Rightarrow> (rat \<times> TimeType) list" where
  "resolvedTokens pattern = List.map_filter resolve (tokenize pattern)"

definition total :: "(TimeType \<Rightarrow> rat) \<Rightarrow> (rat \<times> TimeType) list \<Rightarrow> rat" where
  "total Time ts = (\<Sum>t\<leftarrow>ts. fst t * Time (snd t))"

text \<open>
  No step of the fold leaves the exponent range of the accumulator: the quantity of
  every resolved token, its product with the unit's magnitude and the running total
  after it are representable.  The second argument is the running total.
\<close>

fun exactFold :: "(TimeType \<Rightarrow> rat) \<Rightarrow> rat \<Rightarrow> (jsstring \<times> jsstring) list \<Rightarrow> bool" where
  "exactFold Time a [] = True"
| "exactFold Time a (m # ms) =
    (case tokens (snd m) of
       None \<Rightarrow> exactFold Time a ms
     | Some ty \<Rightarrow>
         representable (quantity (fst m))
         \<and> representable (quantity (fst m) * Time ty)
         \<and> representable (a + quantity (fst m) * Time ty)
         \<and> exactFold Time (a + quantity (fst m) * Time ty) ms)"

lemma MAX_EXP_ge: "40 \<le> MAX_EXP"
  by (simp add: MAX_EXP_def)

lemma normalise_zero: "normalise 0 = Num 0"
  by (simp add: normalise_def)

lemma normalise_Num: "representable x \<Longrightarrow> normalise x = Num x"
  by (auto simp: representable_def normalise_def)

lemma representable_small:
  assumes "x = 0 \<or> (1 / 10 ^ 40 \<le> \<bar>x\<bar> \<and> \<bar>x\<bar> < 10 ^ 40)"
  shows "representable x"
proof (cases "x = 0")
  case True
  then show ?thesis by (simp add: representable_def)
next
  case False
  with assms have lo: "1 / 10 ^ 40 \<le> \<bar>x\<bar>" and hi: "\<bar>x\<bar> < 10 ^ 40"
    by simp_all
  have "(10::rat) ^ 40 \<le> 10 ^ MAX_EXP"
    using MAX_EXP_ge by (intro power_increasing) simp_all
  moreover have "(10::rat) ^ MAX_EXP \<le> 10 ^ (MAX_EXP + 1)"
    by (intro power_increasing) simp_all
  moreover have "1 / (10::rat) ^ MAX_EXP \<le> 1 / 10 ^ 40"
    using \<open>(10::rat) ^ 40 \<le> 10 ^ MAX_EXP\<close> by (intro divide_left_mono) simp_all
  ultimately have "1 / 10 ^ MAX_EXP \<le> \<bar>x\<bar>" and "\<bar>x\<bar> < 10 ^ (MAX_EXP + 1)"
    using lo hi by linarith+
  then show ?thesis by (simp add: representable_def)
qed

lemma normalise_small:
  "x = 0 \<or> (1 / 10 ^ 40 \<le> \<bar>x\<bar> \<and> \<bar>x\<bar> < 10 ^ 40) \<Longrightarrow> normalise x = Num x"
  by (rule normalise_Num) (rule representable_small)

lemma pow10_pos: "0 < pow10 e"
  by (simp add: pow10_def)

lemma normalise_pow10_under:
  assumes "e < - int MAX_EXP"
  shows "normalise (pow10 e) = Num 0"
proof -
  from assms have e: "pow10 e = 1 / 10 ^ nat (- e)" and lt: "MAX_EXP < nat (- e)"
    by (simp_all add: pow10_def)
  have "(10::rat) ^ MAX_EXP < 10 ^ nat (- e)"
    using lt by (intro power_strict_increasing) simp_all
  then have small: "pow10 e < 1 / 10 ^ MAX_EXP"
    unfolding e by (intro divide_strict_left_mono) simp_all
  have "1 / (10::rat) ^ MAX_EXP \<le> 1"
    by simp
  moreover have "(1::rat) \<le> 10 ^ (MAX_EXP + 1)"
    by (rule one_le_power) simp
  ultimately have "\<not> 10 ^ (MAX_EXP + 1) \<le> pow10 e"
    using small by linarith
  with small pow10_pos [of e] show ?thesis
    by (simp add: normalise_def abs_of_pos)
qed


lemma matched_quantity:
  "list_all (\<lambda>m. parseDecimal (fst m) = Some (quantity (fst m))) (tokenize pattern)"
proof -
  have "list_all (\<lambda>m. parseDecimal (fst m) \<noteq> None) (tokenize pattern)"
    unfolding tokenize_def by (rule patternMatches_numeric)
  then show ?thesis
    by (auto simp: list_all_iff quantity_def)
qed


lemma foldl_callback_valid:
  "snd (foldl (callback Time) st ms) = (snd st \<or> List.map_filter resolve ms \<noteq> [])"
proof (induction ms arbitrary: st)
  case Nil
  show ?case by (simp add: map_filter_simps)
next
  case (Cons m ms)
  have step: "snd (callback Time st m) = (snd st \<or> resolve m \<noteq> None)"
    by (cases "tokens (snd m)") (simp_all add: callback_def resolve_def)
  have "snd (foldl (callback Time) (callback Time st m) ms)
      = (snd (callback Time st m) \<or> List.map_filter resolve ms \<noteq> [])"
    by (rule Cons)
  with step show ?case
    by (cases "resolve m") (simp_all add: map_filter_simps)
qed

lemma foldl_callback_exact:
  assumes "list_all (\<lambda>m. parseDecimal (fst m) = Some (quantity (fst m))) ms"
    and "exactFold Time a ms"
  shows "foldl (callback Time) (Num a, v) ms
    = (Num (a + total Time (List.map_filter resolve ms)), v \<or> List.map_filter resolve ms \<noteq> [])"
  using assms
proof (induction ms arbitrary: a v)
  case Nil
  show ?case by (simp add: total_def map_filter_simps)
next
  case (Cons m ms)
  then have num: "parseDecimal (fst m) = Some (quantity (fst m))"
    and rest: "list_all (\<lambda>m. parseDecimal (fst m) = Some (quantity (fst m))) ms"
    by simp_all
  show ?case
  proof (cases "tokens (snd m)")
    case None
    then have "callback Time (Num a, v) m = (Num a, v)" and "resolve m = None"
      by (simp_all add: callback_def resolve_def)
    moreover from Cons.prems(2) None have "exactFold Time a ms"
      by simp
    ultimately show ?thesis
      using Cons.IH [OF rest, of a v] by (simp add: map_filter_simps)
  next
    case (Some ty)
    let ?q = "quantity (fst m)"
    from Cons.prems(2) Some have r: "representable ?q" "representable (?q * Time ty)"
      "representable (a + ?q * Time ty)" and ex: "exactFold Time (a + ?q * Time ty) ms"
      by simp_all
    have "BigNumber_new (fst m) = Num ?q"
      by (simp add: BigNumber_new_def num normalise_Num r(1))
    then have "callback Time (Num a, v) m = (Num (a + ?q * Time ty), True)"
      by (simp add: callback_def Some normalise_Num r(2,3))
    moreover have "resolve m = Some (?q, ty)"
      by (simp add: resolve_def Some)
    ultimately show ?thesis
      using Cons.IH [OF rest ex, of True] by (simp add: map_filter_simps total_def add.assoc)
  qed
qed



lemma calculateOffset_exact:
  assumes "exactFold Time 0 (tokenize pattern)"
  shows "calculateOffset Time pattern =
     (if resolvedTokens pattern = [] then NaN else Num (total Time (resolvedTokens pattern)))"
  using foldl_callback_exact [OF matched_quantity assms, of False]
  by (simp add: calculateOffset_def resolvedTokens_def)

lemmas string_defs = js_def isDigit_def isWordChar_def isSpace_def isUnitLetter_def isA_def isN_def

lemmas scan_defs = removeCommas_def matchMantissa_def matchExponent_def matchPattern_def
  tokenize_def Let_def

lemmas alias_defs = tokens_def tokens_entries_def js_def

lemmas literal_defs = parseDecimal_def parseExponent_def digitsValue_def quantity_def js_def
  isDigit_def Let_def

lemma tokenize_2_days: "tokenize (js ''2 days'') = [(js ''2'', js ''days'')]"
  by (simp add: string_defs scan_defs)

lemma tokens_days: "tokens (js ''days'') = Some Day"
  by (simp add: alias_defs)

lemma quantity_2: "quantity (js ''2'') = 2"
  by (simp add: literal_defs pow10_def)

lemma calculateOffset_2_days:
  assumes "representable (2 * Time Day)"
  shows "calculateOffset Time (js ''2 days'') = Num (2 * Time Day)"
proof -
  have "representable (2::rat)"
    by (rule representable_small) simp
  with assms have "exactFold Time 0 (tokenize (js ''2 days''))"
    by (simp add: tokenize_2_days tokens_days quantity_2)
  from calculateOffset_exact [OF this] show ?thesis
    by (simp add: resolvedTokens_def tokenize_2_days map_filter_simps resolve_def tokens_days
        quantity_2 total_def)
qed

text \<open>
  C1, as amended.  When no step of the fold leaves the exponent range of the
  accumulator, a successful parse yields exactly the sum, over the tokens whose alias
  resolves in the unit table, of the token's quantity times the unit's magnitude;
  every text the pattern matches is a decimal literal; and \<^verbatim>\<open>"2 days"\<close> parses to
  twice the day magnitude, 2 x (24 x 3600 x 1000) in the millisecond table.
\<close>

theorem parse_total_magnitude:
  "(exactFold Time 0 (tokenize pattern) \<longrightarrow> calculateOffset Time pattern = Num r
      \<longrightarrow> r = total Time (resolvedTokens pattern))
   \<and> list_all (\<lambda>m. parseDecimal (fst m) = Some (quantity (fst m))) (tokenize pattern)
   \<and> (representable (2 * Time Day) \<longrightarrow> calculateOffset Time (js ''2 days'') = Num (2 * Time Day))
   \<and> calculateOffset Time_ms (js ''2 days'') = Num (2 * (24 * 3600 * 1000))"
proof (intro conjI)
  show "exactFold Time 0 (tokenize pattern) \<longrightarrow> calculateOffset Time pattern = Num r
      \<longrightarrow> r = total Time (resolvedTokens pattern)"
    by (simp add: calculateOffset_exact split: if_splits)
  show "list_all (\<lambda>m. parseDecimal (fst m) = Some (quantity (fst m))) (tokenize pattern)"
    by (rule matched_quantity)
  show "representable (2 * Time Day) \<longrightarrow> calculateOffset Time (js ''2 days'') = Num (2 * Time Day)"
    by (simp add: calculateOffset_2_days)
  have "representable (2 * Time_ms Day)"
    by (rule representable_small) (simp add: Time_ms_def)
  then have "calculateOffset Time_ms (js ''2 days'') = Num (2 * Time_ms Day)"
    by (rule calculateOffset_2_days)
  then show "calculateOffset Time_ms (js ''2 days'') = Num (2 * (24 * 3600 * 1000))"
    by (simp add: Time_ms_def)
qed

theorem parse_total_magnitude_witness:
  "exactFold Time_ms 0 (tokenize (js ''3 days, 4hrs and 5 mins''))
   \<and> calculateOffset Time_ms (js ''3 days, 4hrs and 5 mins'') = Num 273900000
   \<and> resolvedTokens (js ''3 days, 4hrs and 5 mins'') = [(3, Day), (4, Hour), (5, Minute)]
   \<and> (273900000 :: rat) = total Time_ms [(3, Day), (4, Hour), (5, Minute)]"
proof -
  have tk: "tokenize (js ''3 days, 4hrs and 5 mins'')
      = [(js ''3'', js ''days''), (js ''4'', js ''hrs''), (js ''5'', js ''mins'')]"
    by (simp add: string_defs scan_defs)
  have al: "tokens (js ''hrs'') = Some Hour" "tokens (js ''mins'') = Some Minute"
    by (simp_all add: alias_defs)
  have qs: "quantity (js ''3'') = 3" "quantity (js ''4'') = 4" "quantity (js ''5'') = 5"
    by (simp_all add: literal_defs pow10_def)
  have rs: "resolvedTokens (js ''3 days, 4hrs and 5 mins'') = [(3, Day), (4, Hour), (5, Minute)]"
    by (simp add: resolvedTokens_def tk map_filter_simps resolve_def tokens_days al qs)
  have tt: "total Time_ms [(3, Day), (4, Hour), (5, Minute)] = 273900000"
    by (simp add: total_def Time_ms_def)
  have ex: "exactFold Time_ms 0 (tokenize (js ''3 days, 4hrs and 5 mins''))"
    by (simp add: tk tokens_days al qs Time_ms_def representable_small)
  have "calculateOffset Time_ms (js ''3 days, 4hrs and 5 mins'') = Num 273900000"
    by (simp add: calculateOffset_exact [OF ex] rs tt)
  with parse_total_magnitude [of Time_ms "js ''3 days, 4hrs and 5 mins''" 273900000] ex
  have "(273900000 :: rat) = total Time_ms (resolvedTokens (js ''3 days, 4hrs and 5 mins''))"
    by blast
  with ex rs \<open>calculateOffset Time_ms (js ''3 days, 4hrs and 5 mins'') = Num 273900000\<close>
  show ?thesis by simp
qed

text \<open>
  C1 as stated fails where the accumulator underflows: the quantity of
  \<^verbatim>\<open>"1e-1000000001 s"\<close> is not zero, the alias resolves, and the parse succeeds with
  the magnitude zero.
\<close>

theorem parse_total_counterexample:
  "calculateOffset Time_ms (js ''1e-1000000001 s'') = Num 0
   \<and> resolvedTokens (js ''1e-1000000001 s'') = [(pow10 (- 1000000001), Second)]
   \<and> total Time_ms (resolvedTokens (js ''1e-1000000001 s'')) \<noteq> 0"
proof -
  have tk: "tokenize (js ''1e-1000000001 s'') = [(js ''1e-1000000001'', js ''s'')]"
    by (simp add: string_defs scan_defs)
  have al: "tokens (js ''s'') = Some Second"
    by (simp add: alias_defs)
  have pd: "parseDecimal (js ''1e-1000000001'') = Some (pow10 (- 1000000001))"
    by (simp add: literal_defs)
  have "(- 1000000001 :: int) < - int MAX_EXP"
    by (simp add: MAX_EXP_def)
  then have nm: "normalise (pow10 (- 1000000001)) = Num 0"
    by (rule normalise_pow10_under)
  have a: "calculateOffset Time_ms (js ''1e-1000000001 s'') = Num 0"
    by (simp add: calculateOffset_def tk callback_def al BigNumber_new_def pd nm normalise_zero)
  have b: "resolvedTokens (js ''1e-1000000001 s'') = [(pow10 (- 1000000001), Second)]"
    by (simp add: resolvedTokens_def tk map_filter_simps resolve_def al quantity_def pd)
  have "total Time_ms [(pow10 (- 1000000001), Second)] \<noteq> 0"
    using pow10_pos [of "- 1000000001"] by (simp add: total_def Time_ms_def)
  with a b show ?thesis by simp
qed




section \<open>The formatter\<close>

text \<open>
  A method of \<^verbatim>\<open>DurationFormatter\<close> returns its string or throws: the error thrown
  for a duration that is not a number, or the \<^verbatim>\<open>ReferenceError\<close> of the language for
  an identifier that is bound nowhere.
\<close>

datatype jserror = InvalidDuration | ReferenceError

text \<open>
  The language assets of a unit, from the missing \<^verbatim>\<open>DEFAULT_UNITS\<close>: the two labels
  and the translations for exact counts, keyed as properties are, by the count
  written as a string.  A label table is a function: it has an entry for every unit.
\<close>

record unit_label =
  DEFAULT :: jsstring
  COMPACT :: jsstring
  counts :: "jsstring \<Rightarrow> jsstring option"

text \<open>
  \<^verbatim>\<open>toString()\<close> of a \<^verbatim>\<open>BigNumber\<close>.  Every finite number the formatter writes is
  the result of \<^verbatim>\<open>integerValue\<close>, so the digits are those of the integer part: plain
  up to 21 digits, and from 1e21 on the exponential notation of the library.
\<close>

function digitsOf :: "int \<Rightarrow> jsstring" where
  "digitsOf n = (if n < 10 then [nat (48 + n)] else digitsOf (n div 10) @ [nat (48 + n mod 10)])"
  by pat_completeness auto
termination
  by (relation "measure nat") simp_all

declare digitsOf.simps [simp del]

definition integerToString :: "int \<Rightarrow> jsstring" where
  "integerToString n =
    (let ds = digitsOf \<bar>n\<bar>;
         minus = (if n < 0 then [45] else [])
     in if length ds \<le> 21 then minus @ ds
        else (case rev (dropWhile (\<lambda>c. c = 48) (rev ds)) of
                [] \<Rightarrow> minus @ ds
              | c # cs \<Rightarrow> minus @ c # (if cs = [] then [] else 46 # cs)
                           @ [101, 43] @ digitsOf (int (length ds) - 1)))"

definition BigNumber_toString :: "BigNumber \<Rightarrow> jsstring" where
  "BigNumber_toString x = (case x of
      NaN \<Rightarrow> js ''NaN''
    | Infinity negative \<Rightarrow> (if negative then js ''-Infinity'' else js ''Infinity'')
    | Num v \<Rightarrow> integerToString \<lfloor>v\<rfloor>)"

text \<open>
  \<^verbatim>\<open>time.toString().replace(/\B(?=(\d{3})+(?!\d))/g, ",")\<close>: a comma at every
  position that follows a word character and is followed by a run of digits whose
  length is a positive multiple of three.
\<close>

fun addCommas :: "bool \<Rightarrow> jsstring \<Rightarrow> jsstring" where
  "addCommas prevWord [] = []"
| "addCommas prevWord (c # cs) =
    (if prevWord \<and> 0 < length (takeWhile isDigit (c # cs))
         \<and> length (takeWhile isDigit (c # cs)) mod 3 = 0
     then 44 # c # addCommas (isWordChar c) cs
     else c # addCommas (isWordChar c) cs)"

text \<open>
  \<^verbatim>\<open>time > 0\<close> compares the primitive of the \<^verbatim>\<open>BigNumber\<close> with a number.
\<close>

fun greaterThanZero :: "BigNumber \<Rightarrow> bool" where
  "greaterThanZero NaN = False"
| "greaterThanZero (Infinity negative) = (\<not> negative)"
| "greaterThanZero (Num v) = (0 < v)"

definition addUnit :: "BigNumber \<Rightarrow> unit_label \<Rightarrow> jsstring \<Rightarrow> bool \<Rightarrow> jsstring" where
  "addUnit time unit separator isCompact =
    (if isCompact then
       (if greaterThanZero time
        then addCommas False (BigNumber_toString time) @ COMPACT unit @ separator
        else [])
     else
       (case counts unit (BigNumber_toString time) of
          Some translation \<Rightarrow> addCommas False (BigNumber_toString time) @ separator @ translation
        | None \<Rightarrow> addCommas False (BigNumber_toString time) @ separator @ DEFAULT unit))"

text \<open>
  The loop over \<^verbatim>\<open>kTimeDurations\<close> that \<^verbatim>\<open>verbose\<close>, \<^verbatim>\<open>compact\<close> and \<^verbatim>\<open>elegant\<close>
  each write out.  The source pushes the string of \<^verbatim>\<open>addUnit\<close>; the model collects
  the count and the unit, and the methods map \<^verbatim>\<open>addUnit\<close> over them.  The second
  argument is the precision (none for \<^verbatim>\<open>compact\<close>); the result is the output and
  what is left of the duration.
\<close>

function decompose :: "(TimeType \<times> rat) list \<Rightarrow> int option \<Rightarrow> BigNumber
    \<Rightarrow> (BigNumber \<times> TimeType) list \<Rightarrow> (BigNumber \<times> TimeType) list \<times> BigNumber" where
  "decompose [] precision duration output = (output, duration)"
| "decompose ((ty, timeDuration) # rest) precision duration output =
    (if isLessThan (BigNumber_dividedBy duration (Num timeDuration)) 1
     then decompose rest precision duration output
     else if (case precision of
                Some p \<Rightarrow> p \<le> int (length output) + 1
              | None \<Rightarrow> False)
     then (output @ [(BigNumber_floor (BigNumber_dividedBy duration (Num timeDuration)), ty)],
           BigNumber_minus duration
             (BigNumber_times (BigNumber_floor (BigNumber_dividedBy duration (Num timeDuration)))
                (Num timeDuration)))
     else decompose rest precision
            (BigNumber_minus duration
               (BigNumber_times (BigNumber_floor (BigNumber_dividedBy duration (Num timeDuration)))
                  (Num timeDuration)))
            (output @ [(BigNumber_floor (BigNumber_dividedBy duration (Num timeDuration)), ty)]))"
  by pat_completeness auto
termination
  by (relation "measure (\<lambda>(tbl, precision, duration, output). length tbl)") simp_all

text \<open>
  \<^verbatim>\<open>verbose\<close>.  The statement \<^verbatim>\<open>duration.abs();\<close> drops its result, so the loop runs
  on the duration as it came.  When the joined output is empty the method calls
  \<^verbatim>\<open>addUnit\<close> as a free identifier, which is bound nowhere in the module.
\<close>

definition verbose_output :: "(TimeType \<Rightarrow> rat) \<Rightarrow> (TimeType \<Rightarrow> unit_label) \<Rightarrow> BigNumber \<Rightarrow> int
    \<Rightarrow> jsstring \<Rightarrow> jsstring list" where
  "verbose_output Time units duration precision leftSeparator =
     map (\<lambda>(floored, ty). addUnit floored (units ty) leftSeparator False)
       (fst (decompose (kTimeDurations Time) (Some precision) duration []))"

definition verbose :: "(TimeType \<Rightarrow> rat) \<Rightarrow> (TimeType \<Rightarrow> unit_label) \<Rightarrow> BigNumber \<Rightarrow> int
    \<Rightarrow> jsstring \<Rightarrow> jsstring \<Rightarrow> jserror + jsstring" where
  "verbose Time units duration precision leftSeparator rightSeparator =
    (if isNaN duration then Inl InvalidDuration
     else if Array_join rightSeparator
               (verbose_output Time units duration precision leftSeparator) \<noteq> []
     then Inr ((if isNegative duration then [45] else [])
               @ Array_join rightSeparator
                   (verbose_output Time units duration precision leftSeparator))
     else Inl ReferenceError)"

definition compact_output :: "(TimeType \<Rightarrow> rat) \<Rightarrow> (TimeType \<Rightarrow> unit_label) \<Rightarrow> BigNumber
    \<Rightarrow> jsstring \<Rightarrow> jsstring list" where
  "compact_output Time units duration separator =
     map (\<lambda>(floored, ty). addUnit floored (units ty) separator True)
       (fst (decompose (kTimeDurations Time) None
          (if isNegative duration then BigNumber_abs duration else duration) []))"

definition compact_duration :: "(TimeType \<Rightarrow> rat) \<Rightarrow> (TimeType \<Rightarrow> unit_label) \<Rightarrow> BigNumber
    \<Rightarrow> jsstring \<Rightarrow> jserror + jsstring" where
  "compact_duration Time units duration separator =
    (if isNaN duration then Inl InvalidDuration
     else if 0 < length (compact_output Time units duration separator)
     then Inr ((if isNegative duration then [45] else [])
               @ Array_join separator (compact_output Time units duration separator))
     else Inr (js ''0''))"

definition joinWithConjunction :: "jsstring list \<Rightarrow> jsstring \<Rightarrow> jsstring" where
  "joinWithConjunction output separator =
    (if length output \<le> 1 then Array_join separator output
     else Array_join (js '', '') (butlast output) @ js '' and '' @ last output @ separator)"

definition elegant_output :: "(TimeType \<Rightarrow> rat) \<Rightarrow> (TimeType \<Rightarrow> unit_label) \<Rightarrow> BigNumber \<Rightarrow> int
    \<Rightarrow> jsstring \<Rightarrow> jsstring list" where
  "elegant_output Time units duration precision leftSeparator =
     map (\<lambda>(floored, ty). addUnit floored (units ty) leftSeparator False)
       (fst (decompose (kTimeDurations Time) (Some precision)
          (if isNegative duration then BigNumber_abs duration else duration) []))"

definition elegant :: "(TimeType \<Rightarrow> rat) \<Rightarrow> (TimeType \<Rightarrow> unit_label) \<Rightarrow> BigNumber \<Rightarrow> int
    \<Rightarrow> jsstring \<Rightarrow> jsstring \<Rightarrow> jserror + jsstring" where
  "elegant Time units duration precision leftSeparator rightSeparator =
    (if isNaN duration then Inl InvalidDuration
     else Inr ((if isNegative duration then [45] else [])
               @ joinWithConjunction
                   (elegant_output Time units duration precision leftSeparator) rightSeparator))"

text \<open>\<^verbatim>\<open>binary\<close>: \<^verbatim>\<open>toString(2)\<close> of the whole seconds.\<close>

function base2Digits :: "int \<Rightarrow> jsstring" where
  "base2Digits n = (if n < 2 then [nat (48 + n)] else base2Digits (n div 2) @ [nat (48 + n mod 2)])"
  by pat_completeness auto
termination
  by (relation "measure nat") simp_all

declare base2Digits.simps [simp del]

definition BigNumber_toString2 :: "BigNumber \<Rightarrow> jsstring" where
  "BigNumber_toString2 x = (case x of
      NaN \<Rightarrow> js ''NaN''
    | Infinity negative \<Rightarrow> (if negative then js ''-Infinity'' else js ''Infinity'')
    | Num v \<Rightarrow> (if \<lfloor>v\<rfloor> < 0 then [45] else []) @ base2Digits \<bar>\<lfloor>v\<rfloor>\<bar>)"

definition binary :: "(TimeType \<Rightarrow> rat) \<Rightarrow> BigNumber \<Rightarrow> jserror + jsstring" where
  "binary Time duration =
    (if isNaN duration then Inl InvalidDuration
     else Inr (BigNumber_toString2
                 (BigNumber_floor (BigNumber_dividedBy duration (Num (Time Second))))))"

text \<open>
  \<^verbatim>\<open>scientific\<close>: \<^verbatim>\<open>toExponential()\<close> is a method of the library, and a parameter
  here.
\<close>

definition scientific :: "(BigNumber \<Rightarrow> jsstring) \<Rightarrow> BigNumber \<Rightarrow> jserror + jsstring" where
  "scientific toExponential duration =
    (if isNaN duration then Inl InvalidDuration else Inr (toExponential duration))"

text \<open>\<^verbatim>\<open>padWithZero\<close>: \<^verbatim>\<open>num.toString().padStart(2, "0")\<close>.\<close>

definition padWithZero :: "BigNumber \<Rightarrow> jsstring" where
  "padWithZero num =
     replicate (2 - length (BigNumber_toString num)) 48 @ BigNumber_toString num"

definition colon_hours :: "(TimeType \<Rightarrow> rat) \<Rightarrow> BigNumber \<Rightarrow> BigNumber" where
  "colon_hours Time duration = BigNumber_floor (BigNumber_dividedBy duration (Num (Time Hour)))"

definition colon_minutes :: "(TimeType \<Rightarrow> rat) \<Rightarrow> BigNumber \<Rightarrow> BigNumber" where
  "colon_minutes Time duration =
     BigNumber_floor (BigNumber_dividedBy (BigNumber_modulo duration (Num (Time Hour)))
       (Num (Time Minute)))"

definition colon_seconds :: "(TimeType \<Rightarrow> rat) \<Rightarrow> BigNumber \<Rightarrow> BigNumber" where
  "colon_seconds Time duration =
     BigNumber_floor (BigNumber_dividedBy
       (BigNumber_modulo (BigNumber_modulo duration (Num (Time Hour))) (Num (Time Minute)))
       (Num (Time Second)))"

definition colon :: "(TimeType \<Rightarrow> rat) \<Rightarrow> BigNumber \<Rightarrow> jserror + jsstring" where
  "colon Time duration =
    (if isNaN duration then Inl InvalidDuration
     else Inr (padWithZero (colon_hours Time duration) @ [58]
               @ padWithZero (colon_minutes Time duration) @ [58]
               @ padWithZero (colon_seconds Time duration)))"

text \<open>
  \<^verbatim>\<open>object\<close>: the result is the object's properties in the order they were written;
  \<^verbatim>\<open>result[type] = count\<close> overwrites a key that is there and appends one that is
  not.  The second component is the duration left after the loop.
\<close>

function object_loop :: "(TimeType \<times> rat) list \<Rightarrow> BigNumber \<Rightarrow> (TimeType \<times> BigNumber) list
    \<Rightarrow> (TimeType \<times> BigNumber) list \<times> BigNumber" where
  "object_loop [] duration result = (result, duration)"
| "object_loop ((ty, timeDuration) # rest) duration result =
     object_loop rest (BigNumber_modulo duration (Num timeDuration))
       (AList.update ty (BigNumber_floor (BigNumber_dividedBy duration (Num timeDuration))) result)"
  by pat_completeness auto
termination
  by (relation "measure (\<lambda>(tbl, duration, result). length tbl)") simp_all

definition object :: "(TimeType \<Rightarrow> rat) \<Rightarrow> BigNumber \<Rightarrow> jserror + (TimeType \<times> BigNumber) list" where
  "object Time duration =
    (if isNaN duration then Inl InvalidDuration
     else Inr (fst (object_loop (kTimeDurations Time) duration [])))"

text \<open>
  Modelled from the spec: the built-in English label table of the missing
  \<^verbatim>\<open>constants.js\<close> (a default label, a compact label and a label for the count 1).
  The labels are sample values; only closed examples use this table.
\<close>

definition label :: "string \<Rightarrow> string \<Rightarrow> string \<Rightarrow> unit_label" where
  "label one many short =
     \<lparr>DEFAULT = js many, COMPACT = js short, counts = map_of [(js ''1'', js one)]\<rparr>"

definition DEFAULT_UNITS :: "TimeType \<Rightarrow> unit_label" where
  "DEFAULT_UNITS ty = (case ty of
      Nanosecond \<Rightarrow> label ''nanosecond'' ''nanoseconds'' ''ns''
    | Microsecond \<Rightarrow> label ''microsecond'' ''microseconds'' ''us''
    | Millisecond \<Rightarrow> label ''millisecond'' ''milliseconds'' ''ms''
    | Second \<Rightarrow> label ''second'' ''seconds'' ''s''
    | Minute \<Rightarrow> label ''minute'' ''minutes'' ''m''
    | Hour \<Rightarrow> label ''hour'' ''hours'' ''h''
    | Day \<Rightarrow> label ''day'' ''days'' ''d''
    | Week \<Rightarrow> label ''week'' ''weeks'' ''w''
    | Month \<Rightarrow> label ''month'' ''months'' ''mo''
    | Year \<Rightarrow> label ''year'' ''years'' ''y''
    | Decade \<Rightarrow> label ''decade'' ''decades'' ''dec''
    | Century \<Rightarrow> label ''century'' ''centuries'' ''c''
    | Millennium \<Rightarrow> label ''millennium'' ''millennia'' ''ml''
    | Megayear \<Rightarrow> label ''megayear'' ''megayears'' ''myr''
    | Gigayear \<Rightarrow> label ''gigayear'' ''gigayears'' ''gyr''
    | Terayear \<Rightarrow> label ''terayear'' ''terayears'' ''tyr'')"

section \<open>Evaluating the formatter\<close>

lemma floor_rat_numeral:
  "\<lfloor>numeral a / numeral b :: rat\<rfloor> = numeral a div numeral b"
  "\<lfloor>1 / numeral b :: rat\<rfloor> = 1 div numeral b"
  "\<lfloor>- (numeral a / numeral b) :: rat\<rfloor> = - numeral a div numeral b"
  "\<lfloor>- (1 / numeral b) :: rat\<rfloor> = - 1 div numeral b"
proof -
  show "\<lfloor>numeral a / numeral b :: rat\<rfloor> = numeral a div numeral b"
    using floor_divide_of_int_eq [of "numeral a" "numeral b", where ?'a = rat] by simp
  show "\<lfloor>1 / numeral b :: rat\<rfloor> = 1 div numeral b"
    using floor_divide_of_int_eq [of 1 "numeral b", where ?'a = rat] by simp
  show "\<lfloor>- (numeral a / numeral b) :: rat\<rfloor> = - numeral a div numeral b"
    using floor_divide_of_int_eq [of "- numeral a" "numeral b", where ?'a = rat] by simp
  show "\<lfloor>- (1 / numeral b) :: rat\<rfloor> = - 1 div numeral b"
    using floor_divide_of_int_eq [of "- 1" "numeral b", where ?'a = rat] by simp
qed

lemmas table_defs = kTimeDurations_def allTimeTypes_def Time_ms_def

lemmas quotient_defs = toDecimalPlaces_def round_half_up_def round_down_def floor_rat_numeral
  normalise_small BigNumber_minus_def

lemma Time_ms_positive: "Time_positive Time_ms"
  by (simp add: Time_positive_def allTimeTypes_def Time_ms_def)

lemma Time_ms_descending: "Time_descending Time_ms"
  by (simp add: Time_descending_def allTimeTypes_def Time_ms_def)

lemma decompose_3660000:
  "decompose (kTimeDurations Time_ms) None (Num 3660000) []
     = ([(Num 1, Hour), (Num 1, Minute)], Num 0)"
  "2 \<le> p \<Longrightarrow> decompose (kTimeDurations Time_ms) (Some p) (Num 3660000) []
     = ([(Num 1, Hour), (Num 1, Minute)], Num 0)"
  by (simp_all add: table_defs quotient_defs)

lemma decompose_1000:
  "1 \<le> p \<Longrightarrow> decompose (kTimeDurations Time_ms) (Some p) (Num 1000) [] = ([(Num 1, Second)], Num 0)"
  by (simp add: table_defs quotient_defs)

lemma toString_1: "BigNumber_toString (Num 1) = js ''1''"
  by (simp add: BigNumber_toString_def integerToString_def digitsOf.simps js_def)

lemma addCommas_1: "addCommas False (js ''1'') = js ''1''"
  by (simp add: js_def isDigit_def isWordChar_def)

text \<open>A duration that is zero or negative is below every unit: the loop emits nothing.\<close>

lemma toDecimalPlaces_nonpos: "q \<le> 0 \<Longrightarrow> toDecimalPlaces q \<le> 0"
proof -
  assume "q \<le> 0"
  then have "q * 10 ^ 20 \<le> 0"
    by (simp add: mult_le_0_iff)
  then have "round_half_up (q * 10 ^ 20) \<le> 0"
    by (auto simp: round_half_up_def floor_le_iff not_less)
  then show ?thesis
    by (simp add: toDecimalPlaces_def divide_le_0_iff)
qed

lemma isLessThan_normalise_nonpos: "x \<le> 0 \<Longrightarrow> isLessThan (normalise x) 1"
  by (auto simp: normalise_def)

lemma isLessThan_dividedBy_nonpos:
  assumes "d \<le> 0" and "0 < t"
  shows "isLessThan (BigNumber_dividedBy (Num d) (Num t)) 1"
proof -
  from assms have "d / t \<le> 0"
    by (simp add: divide_le_0_iff)
  then have "isLessThan (normalise (toDecimalPlaces (d / t))) 1"
    by (intro isLessThan_normalise_nonpos toDecimalPlaces_nonpos)
  with assms(2) show ?thesis
    by simp
qed

lemma decompose_nonpos:
  "list_all (\<lambda>ty. 0 < Time ty) tys \<Longrightarrow> d \<le> 0
    \<Longrightarrow> decompose (map (\<lambda>ty. (ty, Time ty)) tys) cap (Num d) out = (out, Num d)"
proof (induction tys)
  case Nil
  show ?case by simp
next
  case (Cons ty tys)
  then have "isLessThan (BigNumber_dividedBy (Num d) (Num (Time ty))) 1"
    by (simp add: isLessThan_dividedBy_nonpos del: BigNumber_dividedBy.simps)
  with Cons show ?case
    by (simp del: BigNumber_dividedBy.simps)
qed

lemma decompose_negative_infinity:
  "list_all (\<lambda>ty. 0 < Time ty) tys
    \<Longrightarrow> decompose (map (\<lambda>ty. (ty, Time ty)) tys) cap (Infinity True) out = (out, Infinity True)"
  by (induction tys) (simp_all add: not_less [symmetric])

lemma decompose_isNegative:
  assumes "Time_positive Time" and "isNegative m \<or> m = Num 0"
  shows "decompose (kTimeDurations Time) cap m out = (out, m)"
proof (cases m)
  case NaN
  with assms(2) show ?thesis by simp
next
  case (Infinity negative)
  with assms show ?thesis
    by (simp add: kTimeDurations_def Time_positive_def decompose_negative_infinity)
next
  case (Num d)
  with assms(2) have "d \<le> 0" by auto
  with assms(1) Num show ?thesis
    by (simp add: kTimeDurations_def Time_positive_def decompose_nonpos)
qed

section \<open>Rendering not-a-number, negative and zero magnitudes, and the separators\<close>

text \<open>
  C4.  Every rendering mode (verbose, elegant, compact, colon, scientific, binary,
  object), given a magnitude that is not a number, fails with \<open>InvalidDuration\<close>;
  the result is the error alone, so no output comes with it.  This holds for every
  unit table, label table, precision and separators.
\<close>

theorem nan_is_InvalidDuration:
  "verbose Time units NaN precision leftSeparator rightSeparator = Inl InvalidDuration
   \<and> elegant Time units NaN precision leftSeparator rightSeparator = Inl InvalidDuration
   \<and> compact_duration Time units NaN separator = Inl InvalidDuration
   \<and> colon Time NaN = Inl InvalidDuration
   \<and> scientific toExponential NaN = Inl InvalidDuration
   \<and> binary Time NaN = Inl InvalidDuration
   \<and> object Time NaN = Inl InvalidDuration"
  by (simp add: verbose_def elegant_def compact_duration_def colon_def scientific_def binary_def
      object_def)

text \<open>
  C5.  For a negative magnitude the two modes differ.  \<open>elegant\<close> returns \<^verbatim>\<open>"-"\<close>
  followed by its rendering of the absolute value.  \<open>verbose\<close> drops the result of
  \<^verbatim>\<open>duration.abs()\<close>, runs the loop on the negative duration, which is below every
  unit, and with the output empty reaches the call of the unbound \<^verbatim>\<open>addUnit\<close>: it
  throws for every negative magnitude, with positive unit magnitudes.
\<close>

theorem negative_rendering:
  assumes "Time_positive Time" and "isNegative m"
  shows "verbose Time units m precision leftSeparator rightSeparator = Inl ReferenceError
    \<and> (\<exists>s. elegant Time units (BigNumber_abs m) precision leftSeparator rightSeparator = Inr s
          \<and> elegant Time units m precision leftSeparator rightSeparator = Inr (45 # s))"
proof -
  from assms have "decompose (kTimeDurations Time) (Some precision) m [] = ([], m)"
    by (simp add: decompose_isNegative)
  moreover from assms(2) have "\<not> isNaN m"
    by (cases m) simp_all
  ultimately have v: "verbose Time units m precision leftSeparator rightSeparator = Inl ReferenceError"
    by (simp add: verbose_def verbose_output_def)
  from assms(2) have "\<not> isNaN (BigNumber_abs m)" and "\<not> isNegative (BigNumber_abs m)"
    by (cases m; simp)+
  with assms(2) \<open>\<not> isNaN m\<close> have
    "elegant Time units m precision leftSeparator rightSeparator
      = Inr (45 # joinWithConjunction
          (elegant_output Time units (BigNumber_abs m) precision leftSeparator) rightSeparator)"
    and "elegant Time units (BigNumber_abs m) precision leftSeparator rightSeparator
      = Inr (joinWithConjunction
          (elegant_output Time units (BigNumber_abs m) precision leftSeparator) rightSeparator)"
    by (simp_all add: elegant_def elegant_output_def)
  with v show ?thesis
    by simp
qed

theorem negative_rendering_witness:
  "Time_positive Time_ms \<and> isNegative (Num (- 1000))
   \<and> verbose Time_ms DEFAULT_UNITS (Num (- 1000)) 7 (js '' '') (js '' '') = Inl ReferenceError
   \<and> elegant Time_ms DEFAULT_UNITS (BigNumber_abs (Num (- 1000))) 7 (js '' '') (js '' '')
       = Inr (js ''1 second'')
   \<and> elegant Time_ms DEFAULT_UNITS (Num (- 1000)) 7 (js '' '') (js '' '') = Inr (js ''-1 second'')"
proof -
  have n: "isNegative (Num (- 1000))"
    by simp
  have e: "elegant Time_ms DEFAULT_UNITS (BigNumber_abs (Num (- 1000))) 7 (js '' '') (js '' '')
      = Inr (js ''1 second'')"
    by (simp add: elegant_def elegant_output_def decompose_1000 addUnit_def toString_1 addCommas_1
        DEFAULT_UNITS_def label_def joinWithConjunction_def)
       (simp add: js_def)
  from negative_rendering [OF Time_ms_positive n, of DEFAULT_UNITS 7 "js '' ''" "js '' ''"] e
  have "verbose Time_ms DEFAULT_UNITS (Num (- 1000)) 7 (js '' '') (js '' '') = Inl ReferenceError"
    and "elegant Time_ms DEFAULT_UNITS (Num (- 1000)) 7 (js '' '') (js '' '') = Inr (45 # js ''1 second'')"
    by simp_all
  with Time_ms_positive n e show ?thesis
    by (simp add: js_def)
qed

text \<open>
  C6.  Rendering a zero magnitude in verbose mode does not return: zero is below
  every unit, the output is empty, and the fallback \<^verbatim>\<open>addUnit(0, this.units.second,
  leftSeparator)\<close> names a function that is bound nowhere in the module (the method is
  \<^verbatim>\<open>this.addUnit\<close>), so the call throws a \<^verbatim>\<open>ReferenceError\<close>.
\<close>

theorem verbose_zero_throws:
  assumes "Time_positive Time"
  shows "verbose Time units (Num 0) precision leftSeparator rightSeparator = Inl ReferenceError"
proof -
  from assms have "decompose (kTimeDurations Time) (Some precision) (Num 0) [] = ([], Num 0)"
    by (simp add: decompose_isNegative)
  then show ?thesis
    by (simp add: verbose_def verbose_output_def)
qed

theorem verbose_zero_throws_witness:
  "Time_positive Time_ms
   \<and> verbose Time_ms DEFAULT_UNITS (Num 0) 7 (js '' '') (js '' '') = Inl ReferenceError"
  using verbose_zero_throws [OF Time_ms_positive, of DEFAULT_UNITS 7 "js '' ''" "js '' ''"]
    Time_ms_positive
  by simp

text \<open>
  C7.  In compact mode \<^verbatim>\<open>addUnit\<close> ends every entry with the separator and
  \<^verbatim>\<open>output.join(separator)\<close> puts the separator between the entries again: one hour
  and one minute (3,660,000 ms) render as the two entries with the separator twice
  between them and once after the last, for every label table and every separator.
  The count is followed by the compact label at once, and zero renders as \<^verbatim>\<open>"0"\<close>.
\<close>

theorem compact_separators:
  "compact_duration Time_ms units (Num 3660000) separator
     = Inr (js ''1'' @ COMPACT (units Hour) @ separator @ separator
            @ js ''1'' @ COMPACT (units Minute) @ separator)
   \<and> compact_duration Time_ms DEFAULT_UNITS (Num 3660000) (js '' '') = Inr (js ''1h  1m '')
   \<and> compact_duration Time_ms units (Num 0) separator = Inr (js ''0'')"
proof -
  have "decompose (kTimeDurations Time_ms) None (Num 0) [] = ([], Num 0)"
    using Time_ms_positive by (simp add: decompose_isNegative)
  then have z: "compact_duration Time_ms units (Num 0) separator = Inr (js ''0'')"
    by (simp add: compact_duration_def compact_output_def)
  have g: "compact_duration Time_ms units (Num 3660000) separator
     = Inr (js ''1'' @ COMPACT (units Hour) @ separator @ separator
            @ js ''1'' @ COMPACT (units Minute) @ separator)" for units separator
    by (simp add: compact_duration_def compact_output_def decompose_3660000 addUnit_def
        toString_1 addCommas_1)
  have "compact_duration Time_ms DEFAULT_UNITS (Num 3660000) (js '' '') = Inr (js ''1h  1m '')"
    by (simp add: g DEFAULT_UNITS_def label_def) (simp add: js_def)
  with z g show ?thesis
    by simp
qed

lemma addUnit_1:
  "addUnit (Num 1) u separator False
     = js ''1'' @ separator @ (case counts u (js ''1'') of Some translation \<Rightarrow> translation
                               | None \<Rightarrow> DEFAULT u)"
  by (simp add: addUnit_def toString_1 addCommas_1 split: option.split)

lemma addUnit_1_nonempty: "addUnit (Num 1) u separator False \<noteq> []"
  by (simp add: addUnit_1 js_def)

text \<open>
  C8.  \<open>elegant\<close> emits the entries of \<open>verbose\<close>, but \<^verbatim>\<open>joinWithConjunction\<close> appends
  the right separator after the last entry when there are two entries or more: one
  hour and one minute (3,660,000 ms) render as the two verbose entries joined by
  \<^verbatim>\<open>" and "\<close> and followed by the right separator, for every label table and every
  pair of separators; with the English labels and the separators \<^verbatim>\<open>" "\<close> the result is
  \<^verbatim>\<open>"1 hour and 1 minute "\<close>.  A single entry is the verbose rendering.
\<close>

theorem elegant_trailing_separator:
  "verbose Time_ms units (Num 3660000) 7 leftSeparator rightSeparator
     = Inr (addUnit (Num 1) (units Hour) leftSeparator False @ rightSeparator
            @ addUnit (Num 1) (units Minute) leftSeparator False)
   \<and> elegant Time_ms units (Num 3660000) 7 leftSeparator rightSeparator
     = Inr (addUnit (Num 1) (units Hour) leftSeparator False @ js '' and ''
            @ addUnit (Num 1) (units Minute) leftSeparator False @ rightSeparator)
   \<and> verbose Time_ms DEFAULT_UNITS (Num 3660000) 7 (js '' '') (js '' '')
     = Inr (js ''1 hour 1 minute'')
   \<and> elegant Time_ms DEFAULT_UNITS (Num 3660000) 7 (js '' '') (js '' '')
     = Inr (js ''1 hour and 1 minute '')
   \<and> elegant Time_ms units (Num 1000) 7 leftSeparator rightSeparator
     = verbose Time_ms units (Num 1000) 7 leftSeparator rightSeparator"
proof -
  have v: "verbose Time_ms units (Num 3660000) 7 l r
     = Inr (addUnit (Num 1) (units Hour) l False @ r @ addUnit (Num 1) (units Minute) l False)"
    for units l r
    by (simp add: verbose_def verbose_output_def decompose_3660000 addUnit_1_nonempty)
  have e: "elegant Time_ms units (Num 3660000) 7 l r
     = Inr (addUnit (Num 1) (units Hour) l False @ js '' and ''
            @ addUnit (Num 1) (units Minute) l False @ r)" for units l r
    by (simp add: elegant_def elegant_output_def decompose_3660000 joinWithConjunction_def)
  have v2: "verbose Time_ms DEFAULT_UNITS (Num 3660000) 7 (js '' '') (js '' '')
     = Inr (js ''1 hour 1 minute'')"
    by (simp add: v addUnit_1 DEFAULT_UNITS_def label_def) (simp add: js_def)
  have e2: "elegant Time_ms DEFAULT_UNITS (Num 3660000) 7 (js '' '') (js '' '')
     = Inr (js ''1 hour and 1 minute '')"
    by (simp add: e addUnit_1 DEFAULT_UNITS_def label_def) (simp add: js_def)
  have s: "elegant Time_ms units (Num 1000) 7 leftSeparator rightSeparator
     = verbose Time_ms units (Num 1000) 7 leftSeparator rightSeparator"
    by (simp add: elegant_def elegant_output_def verbose_def verbose_output_def decompose_1000
        joinWithConjunction_def addUnit_1_nonempty)
  from v e v2 e2 s show ?thesis
    by simp
qed

section \<open>The formatter inside the accumulator's range\<close>





lemma toDecimalPlaces_zero: "toDecimalPlaces 0 = 0"
  by (simp add: toDecimalPlaces_def round_half_up_def floor_rat_numeral)

lemma dividedBy_Num:
  "t \<noteq> 0 \<Longrightarrow> representable (toDecimalPlaces (d / t))
    \<Longrightarrow> BigNumber_dividedBy (Num d) (Num t) = Num (toDecimalPlaces (d / t))"
  by (simp add: normalise_Num toDecimalPlaces_zero)

lemma times_Num: "representable (x * y) \<Longrightarrow> BigNumber_times (Num x) (Num y) = Num (x * y)"
  by (simp add: normalise_Num)

lemma minus_Num: "representable (x - y) \<Longrightarrow> BigNumber_minus (Num x) (Num y) = Num (x - y)"
  by (simp add: BigNumber_minus_def normalise_Num)










section \<open>The modulo cascade\<close>














section \<open>The largest-unit-first decomposition\<close>

text \<open>
  The entries the loop emits, as whole counts, and what they add up to.
\<close>

definition emitted :: "int \<times> TimeType \<Rightarrow> BigNumber \<times> TimeType" where
  "emitted e = (Num (of_int (fst e)), snd e)"

definition magnitudeSum :: "(TimeType \<Rightarrow> rat) \<Rightarrow> (int \<times> TimeType) list \<Rightarrow> rat" where
  "magnitudeSum Time es = (\<Sum>e\<leftarrow>es. of_int (fst e) * Time (snd e))"

text \<open>
  The loop stays inside the accumulator's range: at every unit the rounded quotient
  and, where the unit is emitted, the product of the count with the unit's magnitude
  and the new remainder are zero or have a decimal exponent within the range.  The
  last argument is the number of entries emitted so far.
\<close>

fun inRangeWalk :: "(TimeType \<times> rat) list \<Rightarrow> int option \<Rightarrow> rat \<Rightarrow> nat \<Rightarrow> bool" where
  "inRangeWalk [] precision d n = True"
| "inRangeWalk ((ty, t) # rest) precision d n =
    (representable (toDecimalPlaces (d / t))
     \<and> (if toDecimalPlaces (d / t) < 1 then inRangeWalk rest precision d n
        else representable (of_int \<lfloor>toDecimalPlaces (d / t)\<rfloor> * t)
           \<and> representable (d - of_int \<lfloor>toDecimalPlaces (d / t)\<rfloor> * t)
           \<and> (if (case precision of Some p \<Rightarrow> p \<le> int n + 1 | None \<Rightarrow> False) then True
              else inRangeWalk rest precision (d - of_int \<lfloor>toDecimalPlaces (d / t)\<rfloor> * t)
                     (n + 1))))"

lemma decompose_skip:
  assumes "t \<noteq> 0" and "representable (toDecimalPlaces (d / t))" and "toDecimalPlaces (d / t) < 1"
  shows "decompose ((ty, t) # rest) precision (Num d) out = decompose rest precision (Num d) out"
proof -
  from assms have "isLessThan (BigNumber_dividedBy (Num d) (Num t)) 1"
    by (simp add: dividedBy_Num del: BigNumber_dividedBy.simps)
  then show ?thesis
    by (simp del: BigNumber_dividedBy.simps)
qed

lemma decompose_emit:
  assumes "t \<noteq> 0" and "representable (toDecimalPlaces (d / t))"
    and "\<not> toDecimalPlaces (d / t) < 1"
    and "representable (of_int \<lfloor>toDecimalPlaces (d / t)\<rfloor> * t)"
    and "representable (d - of_int \<lfloor>toDecimalPlaces (d / t)\<rfloor> * t)"
  shows "decompose ((ty, t) # rest) precision (Num d) out =
    (if (case precision of Some p \<Rightarrow> p \<le> int (length out) + 1 | None \<Rightarrow> False)
     then (out @ [(Num (of_int \<lfloor>toDecimalPlaces (d / t)\<rfloor>), ty)],
           Num (d - of_int \<lfloor>toDecimalPlaces (d / t)\<rfloor> * t))
     else decompose rest precision (Num (d - of_int \<lfloor>toDecimalPlaces (d / t)\<rfloor> * t))
            (out @ [(Num (of_int \<lfloor>toDecimalPlaces (d / t)\<rfloor>), ty)]))"
proof -
  let ?k = "of_int \<lfloor>toDecimalPlaces (d / t)\<rfloor> :: rat"
  from assms(1,2) have q: "BigNumber_dividedBy (Num d) (Num t) = Num (toDecimalPlaces (d / t))"
    by (rule dividedBy_Num)
  from assms(4) have p: "BigNumber_times (Num ?k) (Num t) = Num (?k * t)"
    by (rule times_Num)
  from assms(5) have m: "BigNumber_minus (Num d) (Num (?k * t)) = Num (d - ?k * t)"
    by (rule minus_Num)
  from assms(3) have l: "\<not> isLessThan (Num (toDecimalPlaces (d / t))) 1"
    by simp
  show ?thesis
    by (simp only: decompose.simps q l if_False BigNumber_floor.simps p m)
qed

lemma decompose_in_range:
  assumes "list_all (\<lambda>ty. Time ty \<noteq> 0) tys"
    and "sorted_wrt (\<lambda>a b. Time b < Time a) tys"
    and "inRangeWalk (map (\<lambda>ty. (ty, Time ty)) tys) precision d (length out)"
  shows "\<exists>new r. decompose (map (\<lambda>ty. (ty, Time ty)) tys) precision (Num d) out
        = (out @ map emitted new, Num r)
    \<and> list_all (\<lambda>e. 1 \<le> fst e \<and> snd e \<in> set tys) new
    \<and> sorted_wrt (\<lambda>a b. Time (snd b) < Time (snd a)) new
    \<and> magnitudeSum Time new + r = d"
  using assms
proof (induction tys arbitrary: d out)
  case Nil
  have "decompose (map (\<lambda>ty. (ty, Time ty)) []) precision (Num d) out = (out @ map emitted [], Num d)
    \<and> list_all (\<lambda>e. 1 \<le> fst e \<and> snd e \<in> set []) []
    \<and> sorted_wrt (\<lambda>a b. Time (snd b) < Time (snd a)) []
    \<and> magnitudeSum Time [] + d = d"
    by (simp add: magnitudeSum_def)
  then show ?case by blast
next
  case (Cons ty tys)
  let ?t = "Time ty"
  let ?q = "toDecimalPlaces (d / ?t)"
  let ?fl = "\<lfloor>?q\<rfloor>"
  let ?d' = "d - of_int ?fl * ?t"
  from Cons.prems(1) have t: "?t \<noteq> 0" and nz: "list_all (\<lambda>ty. Time ty \<noteq> 0) tys"
    by simp_all
  from Cons.prems(2) have sorted: "sorted_wrt (\<lambda>a b. Time b < Time a) tys"
    and below: "\<forall>u\<in>set tys. Time u < Time ty"
    by simp_all
  from Cons.prems(3) have rq: "representable ?q"
    by simp
  show ?case
  proof (cases "?q < 1")
    case True
    with Cons.prems(3)
    have w: "inRangeWalk (map (\<lambda>ty. (ty, Time ty)) tys) precision d (length out)"
      by simp
    from Cons.IH [OF nz sorted w] obtain new r where
      new: "decompose (map (\<lambda>ty. (ty, Time ty)) tys) precision (Num d) out
          = (out @ map emitted new, Num r)"
      "list_all (\<lambda>e. 1 \<le> fst e \<and> snd e \<in> set tys) new"
      "sorted_wrt (\<lambda>a b. Time (snd b) < Time (snd a)) new"
      "magnitudeSum Time new + r = d"
      by blast
    from decompose_skip [OF t rq True] new(1)
    have "decompose (map (\<lambda>ty. (ty, Time ty)) (ty # tys)) precision (Num d) out
        = (out @ map emitted new, Num r)"
      by simp
    moreover from new(2) have "list_all (\<lambda>e. 1 \<le> fst e \<and> snd e \<in> set (ty # tys)) new"
      by (simp add: list_all_iff)
    ultimately show ?thesis
      using new(3,4) by blast
  next
    case False
    then have fl: "1 \<le> ?fl"
      by (simp add: le_floor_iff)
    from False Cons.prems(3) have rp: "representable (of_int ?fl * ?t)"
      and rd: "representable ?d'"
      by simp_all
    note step = decompose_emit [OF t rq False rp rd, of ty "map (\<lambda>ty. (ty, Time ty)) tys"
        precision out]
    show ?thesis
    proof (cases "case precision of Some p \<Rightarrow> p \<le> int (length out) + 1 | None \<Rightarrow> False")
      case True
      with step have "decompose (map (\<lambda>ty. (ty, Time ty)) (ty # tys)) precision (Num d) out
          = (out @ map emitted [(?fl, ty)], Num ?d')"
        by (simp add: emitted_def)
      moreover have "list_all (\<lambda>e. 1 \<le> fst e \<and> snd e \<in> set (ty # tys)) [(?fl, ty)]"
        using fl by simp
      moreover have "sorted_wrt (\<lambda>a b. Time (snd b) < Time (snd a)) [(?fl, ty)]"
        by simp
      moreover have "magnitudeSum Time [(?fl, ty)] + ?d' = d"
        by (simp add: magnitudeSum_def)
      ultimately show ?thesis by blast
    next
      case noCap: False
      with False Cons.prems(3)
      have w: "inRangeWalk (map (\<lambda>ty. (ty, Time ty)) tys) precision ?d'
          (length (out @ [(Num (of_int ?fl), ty)]))"
        by simp
      from Cons.IH [OF nz sorted w] obtain new r where
        new: "decompose (map (\<lambda>ty. (ty, Time ty)) tys) precision (Num ?d')
            (out @ [(Num (of_int ?fl), ty)])
          = ((out @ [(Num (of_int ?fl), ty)]) @ map emitted new, Num r)"
        "list_all (\<lambda>e. 1 \<le> fst e \<and> snd e \<in> set tys) new"
        "sorted_wrt (\<lambda>a b. Time (snd b) < Time (snd a)) new"
        "magnitudeSum Time new + r = ?d'"
        by blast
      from new(2) below have lt: "\<forall>e\<in>set new. Time (snd e) < Time ty"
        by (simp add: list_all_iff)
      from step noCap new(1)
      have "decompose (map (\<lambda>ty. (ty, Time ty)) (ty # tys)) precision (Num d) out
          = (out @ map emitted ((?fl, ty) # new), Num r)"
        by (simp add: emitted_def)
      moreover have "list_all (\<lambda>e. 1 \<le> fst e \<and> snd e \<in> set (ty # tys)) ((?fl, ty) # new)"
        using new(2) fl by (simp add: list_all_iff)
      moreover have "sorted_wrt (\<lambda>a b. Time (snd b) < Time (snd a)) ((?fl, ty) # new)"
        using new(3) lt by simp
      moreover have "magnitudeSum Time ((?fl, ty) # new) + r = d"
        using new(4) by (simp add: magnitudeSum_def)
      ultimately show ?thesis by blast
    qed
  qed
qed

text \<open>
  C3, as amended.  For every finite magnitude \<open>M\<close> on which the loop stays inside the
  accumulator's range, the largest-unit-first decomposition of \<open>verbose\<close>, \<open>elegant\<close>
  and \<open>compact\<close> emits whole counts that are at least 1, on units of strictly
  decreasing magnitude, and the counts times their magnitudes plus the last remainder
  sum to \<open>M\<close> exactly.  This holds with any precision and with none.
\<close>

theorem decomposition_invariant:
  assumes "Time_positive Time" and "Time_descending Time"
    and "inRangeWalk (kTimeDurations Time) precision M 0"
  shows "\<exists>es r. decompose (kTimeDurations Time) precision (Num M) [] = (map emitted es, Num r)
    \<and> list_all (\<lambda>e. 1 \<le> fst e) es
    \<and> sorted_wrt (\<lambda>a b. Time (snd b) < Time (snd a)) es
    \<and> magnitudeSum Time es + r = M"
proof -
  from assms(1) have "list_all (\<lambda>ty. Time ty \<noteq> 0) allTimeTypes"
    by (auto simp: Time_positive_def list_all_iff)
  moreover from assms(2) have "sorted_wrt (\<lambda>a b. Time b < Time a) allTimeTypes"
    by (simp add: Time_descending_def)
  moreover from assms(3)
  have "inRangeWalk (map (\<lambda>ty. (ty, Time ty)) allTimeTypes) precision M (length ([] :: (BigNumber \<times> TimeType) list))"
    by (simp add: kTimeDurations_def)
  ultimately obtain new r where
    "decompose (map (\<lambda>ty. (ty, Time ty)) allTimeTypes) precision (Num M) []
        = ([] @ map emitted new, Num r)"
    "list_all (\<lambda>e. 1 \<le> fst e \<and> snd e \<in> set allTimeTypes) new"
    "sorted_wrt (\<lambda>a b. Time (snd b) < Time (snd a)) new"
    "magnitudeSum Time new + r = M"
    using decompose_in_range [of Time allTimeTypes precision M "[]"] by blast
  then have "decompose (kTimeDurations Time) precision (Num M) [] = (map emitted new, Num r)
    \<and> list_all (\<lambda>e. 1 \<le> fst e) new
    \<and> sorted_wrt (\<lambda>a b. Time (snd b) < Time (snd a)) new
    \<and> magnitudeSum Time new + r = M"
    by (simp add: kTimeDurations_def list_all_iff)
  then show ?thesis by blast
qed

theorem decomposition_invariant_witness:
  "Time_positive Time_ms \<and> Time_descending Time_ms
   \<and> inRangeWalk (kTimeDurations Time_ms) (Some 7) 90061000 0
   \<and> decompose (kTimeDurations Time_ms) (Some 7) (Num 90061000) []
       = (map emitted [(1, Day), (1, Hour), (1, Minute), (1, Second)], Num 0)
   \<and> (\<exists>es r. decompose (kTimeDurations Time_ms) (Some 7) (Num 90061000) [] = (map emitted es, Num r)
        \<and> list_all (\<lambda>e. 1 \<le> fst e) es
        \<and> sorted_wrt (\<lambda>a b. Time_ms (snd b) < Time_ms (snd a)) es
        \<and> magnitudeSum Time_ms es + r = 90061000)"
proof -
  have w: "inRangeWalk (kTimeDurations Time_ms) (Some 7) 90061000 0"
    by (simp add: table_defs toDecimalPlaces_def round_half_up_def floor_rat_numeral
        representable_small)
  have d: "decompose (kTimeDurations Time_ms) (Some 7) (Num 90061000) []
       = (map emitted [(1, Day), (1, Hour), (1, Minute), (1, Second)], Num 0)"
    by (simp add: table_defs quotient_defs emitted_def)
  from decomposition_invariant [OF Time_ms_positive Time_ms_descending w] d w
    Time_ms_positive Time_ms_descending
  show ?thesis
    by simp
qed

text \<open>
  C3 as stated fails at an infinite magnitude, which is neither negative nor
  not-a-number (the parser returns it for a quantity above the range).  The loop
  emits an infinite count for the largest unit, the remainder becomes not-a-number,
  and every following unit is emitted with a count that is not a number, until the
  precision is reached.
\<close>

theorem decomposition_counterexample:
  "\<not> isNaN (Infinity False) \<and> \<not> isNegative (Infinity False)
   \<and> decompose (kTimeDurations Time_ms) (Some 7) (Infinity False) []
       = ([(Infinity False, Terayear), (NaN, Gigayear), (NaN, Megayear), (NaN, Millennium),
           (NaN, Century), (NaN, Decade), (NaN, Year)], NaN)
   \<and> verbose Time_ms DEFAULT_UNITS (Infinity False) 7 (js '' '') (js '' '')
       = Inr (js ''Infinity terayears NaN gigayears NaN megayears NaN millennia NaN centuries NaN decades NaN years'')"
proof -
  have d: "decompose (kTimeDurations Time_ms) (Some 7) (Infinity False) []
       = ([(Infinity False, Terayear), (NaN, Gigayear), (NaN, Megayear), (NaN, Millennium),
           (NaN, Century), (NaN, Decade), (NaN, Year)], NaN)"
    by (simp add: table_defs BigNumber_minus_def)
  have a: "addCommas False (js ''Infinity'') = js ''Infinity''" "addCommas False (js ''NaN'') = js ''NaN''"
    by (simp_all add: js_def isDigit_def isWordChar_def)
  have v: "verbose Time_ms DEFAULT_UNITS (Infinity False) 7 (js '' '') (js '' '')
       = Inr (js ''Infinity terayears NaN gigayears NaN megayears NaN millennia NaN centuries NaN decades NaN years'')"
    by (simp add: verbose_def verbose_output_def d addUnit_def BigNumber_toString_def a
        DEFAULT_UNITS_def label_def)
       (simp add: js_def)
  from d v show ?thesis
    by simp
qed

end
